theory Spec2Isabelle
  imports Complex_Main
begin

section \<open>Python values and exceptions\<close>

text \<open>
  The call-event channel delivers XML notifications parsed into nested Python values:
  strings, \<open>None\<close>, lists and dictionaries with string keys. A dictionary is an
  association list read with \<open>map_of\<close> (the first binding of a key is its value).
\<close>

datatype pyval =
    PNone
  | PStr string
  | PList "pyval list"
  | PDict "(string \<times> pyval) list"

text \<open>
  Exceptions are values. \<open>AttributeError\<close>, \<open>TypeError\<close> and \<open>ValueError\<close> are
  raised by the interpreter; \<open>MarkupError\<close> is raised by the console when it prints a
  text whose markup it cannot parse, and carries the offending tag; \<open>PlatformError\<close>
  stands for any exception of the telephony client and \<open>StorageError\<close> for any
  exception of the database session, each with its text. All of them are subclasses of
  \<open>Exception\<close>, so every \<open>except Exception\<close> clause catches them.
\<close>

datatype exn =
    AttributeError
  | TypeError
  | ValueError
  | MarkupError string
  | PlatformError string
  | StorageError string

text \<open>Truth value of a Python value, as \<open>if v:\<close> tests it.\<close>

fun truthy :: "pyval \<Rightarrow> bool" where
  "truthy PNone = False"
| "truthy (PStr s) = (s \<noteq> [])"
| "truthy (PList xs) = (xs \<noteq> [])"
| "truthy (PDict kvs) = (kvs \<noteq> [])"

text \<open>Lists and dictionaries are unhashable: using one as a dictionary key raises.\<close>

fun hashable :: "pyval \<Rightarrow> bool" where
  "hashable PNone = True"
| "hashable (PStr s) = True"
| "hashable (PList xs) = False"
| "hashable (PDict kvs) = False"

text \<open>\<open>obj.get(key, default)\<close>: only a dictionary has the method.\<close>

definition py_get :: "pyval \<Rightarrow> string \<Rightarrow> pyval \<Rightarrow> exn + pyval" where
  "py_get obj k dflt =
     (case obj of
        PDict kvs \<Rightarrow> Inr (case map_of kvs k of Some v \<Rightarrow> v | None \<Rightarrow> dflt)
      | _ \<Rightarrow> Inl AttributeError)"

definition lower_char :: "char \<Rightarrow> char" where
  "lower_char ch =
     (let n = (of_char ch :: nat) in if 65 \<le> n \<and> n \<le> 90 then char_of (n + 32) else ch)"

text \<open>\<open>obj.lower()\<close>: only a string has the method (ASCII letters are folded).\<close>

definition py_lower :: "pyval \<Rightarrow> exn + pyval" where
  "py_lower v = (case v of PStr s \<Rightarrow> Inr (PStr (map lower_char s)) | _ \<Rightarrow> Inl AttributeError)"

definition bind_exn :: "exn + 'a \<Rightarrow> ('a \<Rightarrow> exn + 'b) \<Rightarrow> exn + 'b" where
  "bind_exn m f = (case m of Inl e \<Rightarrow> Inl e | Inr x \<Rightarrow> f x)"

text \<open>
  A Python dictionary with arbitrary hashable keys, as \<open>self.xsi_user_map\<close>:
  \<open>d.get(k)\<close> raises \<open>TypeError\<close> on an unhashable key and gives \<open>None\<close> on a
  missing one.
\<close>

definition map_get :: "(pyval \<rightharpoonup> 'v) \<Rightarrow> pyval \<Rightarrow> exn + 'v option" where
  "map_get m k = (if hashable k then Inr (m k) else Inl TypeError)"

text \<open>\<open>d.get(key)\<close> on a dictionary with string keys: \<open>None\<close> when the key is missing.\<close>

definition dict_get :: "(string \<times> pyval) list \<Rightarrow> string \<Rightarrow> pyval" where
  "dict_get d k = (case map_of d k of Some v \<Rightarrow> v | None \<Rightarrow> PNone)"

section \<open>Configuration and stored records\<close>

text \<open>
  The settings read through the configuration singleton \<open>c\<close>: the bounding box and the
  staleness timeout in seconds. Timestamps are epoch seconds (Python floats), modelled
  as reals.
\<close>

record config =
  LAT_MIN :: real
  LAT_MAX :: real
  LON_MIN :: real
  LON_MAX :: real
  GEOLOCATION_TIMEOUT :: real

text \<open>A row of table \<open>time_locations\<close>; every column is declared \<open>nullable=False\<close>.\<close>

record TimeLocation =
  tl_user_id :: string
  tl_session_token :: string
  tl_time :: string
  tl_latitude :: real
  tl_longitude :: real
  tl_last_update :: real

text \<open>A row of table \<open>allow_list\<close> with its \<open>time_locations\<close> relationship loaded.\<close>

record AllowList =
  al_user_id :: string
  al_allow_caller :: bool
  al_time_locations :: "TimeLocation list"

text \<open>
  The database session is outside the repository. What the oracle needs from it is the
  outcome of \<open>db.query(AllowList).filter(AllowList.user_id == user_id).first()\<close>: the
  first matching row, \<open>None\<close>, or an exception of the storage layer.
\<close>

type_synonym session = "string \<Rightarrow> exn + AllowList option"

text \<open>One element of \<open>geolocation_data\<close>, the dictionary built from a sample.\<close>

record geolocation =
  g_time :: string
  g_latitude :: real
  g_longitude :: real
  g_last_update :: "real option"

record allow_list_data =
  d_user_id :: string
  d_allow_caller :: bool
  d_geolocation_data :: "geolocation list"

section \<open>Effects\<close>

subsection \<open>Log lines and observable actions\<close>

datatype log_msg =
    ErrorExtractingEventDetails exn
  | NoAllowListEntryFound string
  | NoLastUpdateTime
  | GeolocationTimedOut
  | GeolocationWithinPeriod
  | LatestGeolocationData string geolocation
  | AllowedWithinUpdatePeriod string
  | BlockedUpdateTimedOut string
  | NoGeolocationDataFound string
  | NotInAllowListOrNoData string
  | NoXsiInstanceFound pyval
  | EndedCall string
  | FailedToEndCall pyval exn
  | NoActiveCallFound pyval
  | BothPartiesInternal pyval
  | InboundAllowed string pyval
  | InboundBlocked string pyval
  | OutboundAllowed string pyval
  | OutboundBlocked string pyval
  | EventDetailsNotExtracted
  | ProcessingEvent pyval "(string \<times> pyval) list"
  | HandlingCallEvent pyval pyval pyval pyval
  | UnhandledEventType pyval
  | ErrorHandlingCallEvent exn
  | MonitoringLoopTraceback exn
  | ErrorInMonitoringLoop exn
  | PrintXsiUserMap
  | CallMonitoringInitiated
  | GeolocationUpdateReceived string
  | GeolocationUpdateData string string real real
  | NoUserListEntryFound string
  | LocationOutsideBoundaries string
  | AddingToAllowList string
  | ErrorUpdatingGeolocation exn

text \<open>
  What a run does to the outside world, in order: log lines (\<open>Log\<close> for a line that
  is also printed on the console, \<open>LogOnly\<close> for a line that goes to the logger
  alone), the entry into
  \<open>check_user_permission\<close> and \<open>reject_call\<close> with their arguments, the read of a
  user's active calls, each hangup attempt (by the id of the call), the pause of the
  monitoring loop, and the writes of the location-update endpoint to the storage layer
  with their arguments.
\<close>

datatype action =
    Log log_msg
  | LogOnly log_msg
  | CheckUserPermission string
  | RejectCall pyval pyval
  | ReadActiveCalls string
  | Hangup string
  | Sleep
  | CreateAllowListEntry string bool
  | UpdateTimeLocationEntry string string string real real
  | Rollback

text \<open>A computation yields the actions it performed and then a value or an exception.\<close>

type_synonym 'a io = "action list \<times> (exn + 'a)"

definition return_io :: "'a \<Rightarrow> 'a io" where
  "return_io x = ([], Inr x)"

definition lift_exn :: "exn + 'a \<Rightarrow> 'a io" where
  "lift_exn r = ([], r)"

definition emit :: "action \<Rightarrow> unit io" where
  "emit a = ([a], Inr ())"

definition bind_io :: "'a io \<Rightarrow> ('a \<Rightarrow> 'b io) \<Rightarrow> 'b io" where
  "bind_io m f =
     (case m of
        (t, Inl e) \<Rightarrow> (t, Inl e)
      | (t, Inr x) \<Rightarrow> (case f x of (t', r) \<Rightarrow> (t @ t', r)))"

definition then_io :: "'a io \<Rightarrow> 'b io \<Rightarrow> 'b io" where
  "then_io m n = bind_io m (\<lambda>_. n)"

text \<open>
  \<open>lm.lnp(message, ...)\<close> hands the message to the logger and then prints it on the
  console with markup enabled. The console is outside the repository; it raises when
  it cannot parse the markup of the text, which depends on the values interpolated
  into the message. What the console does with a message is a parameter (\<open>None\<close>:
  prints; \<open>Some e\<close>: raises \<open>e\<close>). The line is logged before the console is
  reached.
\<close>

type_synonym logger = "log_msg \<Rightarrow> exn option"

definition lnp :: "logger \<Rightarrow> log_msg \<Rightarrow> unit io" where
  "lnp lm message =
     then_io (emit (Log message))
       (lift_exn (case lm message of None \<Rightarrow> Inr () | Some e \<Rightarrow> Inl e))"

text \<open>\<open>try: m except Exception as e: h e\<close>\<close>

definition try_except :: "'a io \<Rightarrow> (exn \<Rightarrow> 'a io) \<Rightarrow> 'a io" where
  "try_except m h =
     (case m of
        (t, Inl e) \<Rightarrow> (case h e of (t', r) \<Rightarrow> (t @ t', r))
      | (t, Inr x) \<Rightarrow> (t, Inr x))"

section \<open>Event classifier: \<open>CallMonitor.extract_event_details\<close>\<close>

text \<open>
  The body of the \<open>try\<close> block. Each \<open>.get\<close> may raise; \<open>remote_party_name\<close> and
  \<open>userDN\<close> are computed (and may raise) although the returned dictionary does not
  hold them. The second operand of \<open>or\<close> is evaluated only when the first is falsy.
\<close>

definition extract_event_details_body :: "pyval \<Rightarrow> exn + (string \<times> pyval) list" where
  "extract_event_details_body event =
     bind_exn (py_get event ''xsi:Event'' (PDict [])) (\<lambda>xsi_event.
     bind_exn (py_get xsi_event ''xsi:eventData'' (PDict [])) (\<lambda>event_data.
     bind_exn (py_get event_data ''@xsi1:type'' (PDict [])) (\<lambda>event_type.
     bind_exn (py_get event_data ''xsi:call'' (PDict [])) (\<lambda>call_info.
     bind_exn (py_get event ''xsi:Event'' (PDict [])) (\<lambda>xsi_event2.
     bind_exn (py_get xsi_event2 ''xsi:targetId'' (PDict [])) (\<lambda>xsitargetId.
     bind_exn (py_get call_info ''xsi:callId'' (PStr [])) (\<lambda>call_id.
     bind_exn (py_get call_info ''xsi:remoteParty'' (PDict [])) (\<lambda>remote_party_info.
     bind_exn (py_get remote_party_info ''xsi:userId'' (PDict [])) (\<lambda>userId.
     bind_exn (py_get remote_party_info ''xsi:name'' (PStr [])) (\<lambda>xsi_name.
     bind_exn (py_lower xsi_name) (\<lambda>remote_party_name.
     bind_exn (py_get remote_party_info ''xsi:userDN'' (PDict [])) (\<lambda>user_dn.
     bind_exn (py_get user_dn ''#text'' (PStr [])) (\<lambda>dn_text.
     bind_exn (if truthy dn_text then Inr dn_text
               else bind_exn (py_get remote_party_info ''xsi:address'' (PDict []))
                      (\<lambda>address. py_get address ''#text'' (PStr []))) (\<lambda>userDN.
     Inr [(''event_type'', event_type),
          (''call_id'', call_id),
          (''user_id'', userId),
          (''target_id'', xsitargetId)]))))))))))))))"

definition extract_event_details :: "logger \<Rightarrow> pyval \<Rightarrow> (string \<times> pyval) list io" where
  "extract_event_details lm event =
     try_except (lift_exn (extract_event_details_body event))
       (\<lambda>e. then_io (lnp lm (ErrorExtractingEventDetails e)) (return_io []))"

section \<open>Permission oracle\<close>

subsection \<open>Reading the allow list\<close>

definition geolocation_of :: "TimeLocation \<Rightarrow> geolocation" where
  "geolocation_of time_location =
     \<lparr>g_time = tl_time time_location,
      g_latitude = tl_latitude time_location,
      g_longitude = tl_longitude time_location,
      g_last_update = Some (tl_last_update time_location)\<rparr>"

text \<open>\<open>CRUDOperations.get_allow_list_entry_by_user_id\<close>\<close>

definition get_allow_list_entry_by_user_id :: "logger \<Rightarrow> session \<Rightarrow> string \<Rightarrow> allow_list_data option io" where
  "get_allow_list_entry_by_user_id lm db user_id =
     bind_io (lift_exn (db user_id)) (\<lambda>allow_list_entry.
       case allow_list_entry of
         Some row \<Rightarrow>
           return_io (Some \<lparr>d_user_id = al_user_id row, d_allow_caller = al_allow_caller row,
                             d_geolocation_data = map geolocation_of (al_time_locations row)\<rparr>)
       | None \<Rightarrow> then_io (lnp lm (NoAllowListEntryFound user_id)) (return_io None))"

subsection \<open>\<open>funcs.in_country\<close> and \<open>funcs.is_geolocation_timeout\<close>\<close>

definition in_country :: "config \<Rightarrow> real \<Rightarrow> real \<Rightarrow> bool" where
  "in_country c latitude longitude =
     (LAT_MIN c \<le> latitude \<and> latitude \<le> LAT_MAX c \<and>
      LON_MIN c \<le> longitude \<and> longitude \<le> LON_MAX c)"

text \<open>\<open>current_time\<close> is the clock reading \<open>datetime.now(timezone.utc).timestamp()\<close>.\<close>

definition is_geolocation_timeout :: "logger \<Rightarrow> config \<Rightarrow> real \<Rightarrow> geolocation \<Rightarrow> bool io" where
  "is_geolocation_timeout lm c current_time geolocation_data =
     (case g_last_update geolocation_data of
        None \<Rightarrow> then_io (lnp lm NoLastUpdateTime) (return_io True)
      | Some last_update \<Rightarrow>
          if current_time - last_update > GEOLOCATION_TIMEOUT c
          then then_io (lnp lm GeolocationTimedOut) (return_io True)
          else then_io (lnp lm GeolocationWithinPeriod) (return_io False))"

subsection \<open>\<open>CallMonitor.check_user_permission\<close>\<close>

text \<open>
  \<open>max(items, key=lambda x: x['last_update'])\<close> on a non-empty list: the first item
  whose key is maximal. An item replaces the best one so far when its key is greater;
  comparing with a key that is \<open>None\<close> raises \<open>TypeError\<close>.
\<close>

fun max_last_update_from :: "geolocation \<Rightarrow> geolocation list \<Rightarrow> exn + geolocation" where
  "max_last_update_from best [] = Inr best"
| "max_last_update_from best (x # xs) =
     (case (g_last_update x, g_last_update best) of
        (Some a, Some b) \<Rightarrow> max_last_update_from (if a > b then x else best) xs
      | _ \<Rightarrow> Inl TypeError)"

definition max_last_update :: "geolocation list \<Rightarrow> exn + geolocation" where
  "max_last_update items =
     (case items of [] \<Rightarrow> Inl TypeError | x # xs \<Rightarrow> max_last_update_from x xs)"

text \<open>
  The function has no \<open>try\<close> block: an exception of the session leaves it. The
  dictionary returned by the storage layer, and the latest sample, have keys, so both
  are truthy whenever they are present; the branch logging \<open>NoGeolocationDataFound\<close>
  needs a sample without keys.
\<close>

definition check_user_permission :: "logger \<Rightarrow> config \<Rightarrow> real \<Rightarrow> session \<Rightarrow> string \<Rightarrow> bool io" where
  "check_user_permission lm c now db user_id =
     then_io (emit (CheckUserPermission user_id))
     (bind_io (get_allow_list_entry_by_user_id lm db user_id) (\<lambda>user_allow_list_entry.
       case user_allow_list_entry of
         None \<Rightarrow> then_io (lnp lm (NotInAllowListOrNoData user_id)) (return_io False)
       | Some entry \<Rightarrow>
           if d_geolocation_data entry \<noteq> [] then
             bind_io (lift_exn (max_last_update (d_geolocation_data entry))) (\<lambda>latest_time_location.
             then_io (lnp lm (LatestGeolocationData user_id latest_time_location))
             (bind_io (is_geolocation_timeout lm c now latest_time_location) (\<lambda>timed_out.
               if \<not> timed_out
               then then_io (lnp lm (AllowedWithinUpdatePeriod user_id)) (return_io True)
               else then_io (lnp lm (BlockedUpdateTimedOut user_id)) (return_io False))))
           else then_io (lnp lm (NotInAllowListOrNoData user_id)) (return_io False)))"

section \<open>Directory snapshot and call termination\<close>

text \<open>
  An active call of a user as the platform handle lists it: its id, and what
  \<open>call.hangup()\<close> does (\<open>None\<close>: returns; \<open>Some e\<close>: raises \<open>e\<close>).
\<close>

record call =
  id_call :: string
  hangup :: "exn option"

text \<open>
  The telephony platform at the moment of a decision: for the handle of a user, the
  outcome of reading \<open>xsi_instance.calls\<close>.
\<close>

type_synonym platform = "string \<Rightarrow> exn + call list"

text \<open>
  One value of \<open>xsi_user_map\<close>. \<open>xsi_instance\<close> is the reference to the user's
  platform handle (\<open>None\<close> when the entry holds no usable handle).
\<close>

record user_entry =
  remote_party_name :: string
  xsi_user_id :: pyval
  webex_user_id :: string
  phone_number :: "string option"
  extension :: "string option"
  xsi_instance :: "string option"

type_synonym xsi_user_map = "pyval \<rightharpoonup> user_entry"

text \<open>The loop over \<open>active_calls\<close> in \<open>reject_call\<close>, with its inner \<open>try\<close>.\<close>

fun hangup_calls :: "logger \<Rightarrow> pyval \<Rightarrow> call list \<Rightarrow> unit io" where
  "hangup_calls lm call_id [] = return_io ()"
| "hangup_calls lm call_id (c # cs) =
     then_io
       (try_except
          (then_io (emit (Hangup (id_call c)))
          (then_io (lift_exn (case hangup c of None \<Rightarrow> Inr () | Some e \<Rightarrow> Inl e))
                   (lnp lm (EndedCall (id_call c)))))
          (\<lambda>e. lnp lm (FailedToEndCall call_id e)))
       (hangup_calls lm call_id cs)"

text \<open>
  \<open>CallMonitor.reject_call\<close>. The line for a user without entry goes to
  \<open>lm.logger.error\<close>, not to the console.
\<close>

definition reject_call :: "logger \<Rightarrow> xsi_user_map \<Rightarrow> platform \<Rightarrow> pyval \<Rightarrow> pyval \<Rightarrow> unit io" where
  "reject_call lm self pf user_id call_id =
     then_io (emit (RejectCall user_id call_id))
     (bind_io (lift_exn (map_get self user_id)) (\<lambda>user_entry.
       case user_entry of
         None \<Rightarrow> emit (LogOnly (NoXsiInstanceFound user_id))
       | Some entry \<Rightarrow>
           (case xsi_instance entry of
              Some h \<Rightarrow>
                try_except
                  (then_io (emit (ReadActiveCalls h))
                  (bind_io (lift_exn (pf h)) (\<lambda>active_calls. hangup_calls lm call_id active_calls)))
                  (\<lambda>e. lnp lm (FailedToEndCall call_id e))
            | None \<Rightarrow> lnp lm (NoActiveCallFound call_id))))"

section \<open>Admission decision engine\<close>

text \<open>
  The world outside the monitor when one event is handled: the clock, the database
  session and the telephony platform.
\<close>

record env =
  clock :: real
  db_session :: session
  xsi_platform :: platform

definition CallReceivedEvent :: pyval where
  "CallReceivedEvent = PStr ''xsi:CallReceivedEvent''"

definition CallOriginatedEvent :: pyval where
  "CallOriginatedEvent = PStr ''xsi:CallOriginatedEvent''"

text \<open>\<open>CallMonitor.handle_internal_call\<close>\<close>

definition handle_internal_call :: "logger \<Rightarrow> xsi_user_map \<Rightarrow> pyval \<Rightarrow> pyval \<Rightarrow> pyval \<Rightarrow> unit io" where
  "handle_internal_call lm self xsi_user_id' xsi_target_id call_id =
     bind_io (if truthy xsi_user_id' then lift_exn (map_get self xsi_user_id') else return_io None)
       (\<lambda>caller_entry.
     bind_io (if truthy xsi_target_id then lift_exn (map_get self xsi_target_id) else return_io None)
       (\<lambda>receiver_entry.
     if caller_entry \<noteq> None \<and> receiver_entry \<noteq> None
     then lnp lm (BothPartiesInternal call_id)
     else return_io ()))"

text \<open>\<open>CallMonitor.handle_external_call\<close>\<close>

definition handle_external_call ::
  "logger \<Rightarrow> config \<Rightarrow> xsi_user_map \<Rightarrow> env \<Rightarrow> pyval \<Rightarrow> pyval \<Rightarrow> pyval \<Rightarrow> unit io" where
  "handle_external_call lm c self w internal_xsi_user_id call_id event_type =
     bind_io (lift_exn (map_get self internal_xsi_user_id)) (\<lambda>entry.
       case (case entry of Some e \<Rightarrow> Some (webex_user_id e) | None \<Rightarrow> None) of
         Some internal_webex_user_id \<Rightarrow>
           if event_type = CallReceivedEvent \<and> internal_webex_user_id \<noteq> [] then
             bind_io (check_user_permission lm c (clock w) (db_session w) internal_webex_user_id)
               (\<lambda>permitted.
                 if permitted then lnp lm (InboundAllowed internal_webex_user_id call_id)
                 else then_io (lnp lm (InboundBlocked internal_webex_user_id call_id))
                        (reject_call lm self (xsi_platform w) internal_xsi_user_id call_id))
           else if event_type = CallOriginatedEvent \<and> internal_webex_user_id \<noteq> [] then
             bind_io (check_user_permission lm c (clock w) (db_session w) internal_webex_user_id)
               (\<lambda>permitted.
                 if permitted then lnp lm (OutboundAllowed internal_webex_user_id call_id)
                 else then_io (lnp lm (OutboundBlocked internal_webex_user_id call_id))
                        (reject_call lm self (xsi_platform w) internal_xsi_user_id call_id))
           else return_io ()
       | None \<Rightarrow> return_io ())"

text \<open>The \<open>try\<close> block of \<open>handle_event\<close>.\<close>

definition handle_event_body ::
  "logger \<Rightarrow> config \<Rightarrow> xsi_user_map \<Rightarrow> env \<Rightarrow> (string \<times> pyval) list \<Rightarrow> pyval \<Rightarrow> unit io" where
  "handle_event_body lm c self w event_details event_type =
     (if event_type = CallReceivedEvent \<or> event_type = CallOriginatedEvent then
        then_io (lnp lm (ProcessingEvent event_type event_details))
        (let call_id = dict_get event_details ''call_id'';
             xsi_user_id' = dict_get event_details ''user_id'';
             xsi_target_id = dict_get event_details ''target_id''
         in then_io (lnp lm (HandlingCallEvent event_type call_id xsi_user_id' xsi_target_id))
            (let internal_xsi_user_id = (if truthy xsi_target_id then xsi_target_id else xsi_user_id')
             in if truthy xsi_user_id' \<and> truthy xsi_target_id then
                  handle_internal_call lm self xsi_user_id' xsi_target_id call_id
                else if truthy internal_xsi_user_id then
                  handle_external_call lm c self w xsi_target_id call_id event_type
                else lnp lm (UnhandledEventType event_type)))
      else return_io ())"

text \<open>
  \<open>CallMonitor.handle_event\<close>. The classifier is called before the \<open>try\<close> block; the
  handler logs the exception (and prints the traceback on the error stream).
\<close>

definition handle_event :: "logger \<Rightarrow> config \<Rightarrow> xsi_user_map \<Rightarrow> env \<Rightarrow> pyval \<Rightarrow> unit io" where
  "handle_event lm c self w event =
     bind_io (extract_event_details lm event) (\<lambda>event_details.
       let event_type = dict_get event_details ''event_type''
       in if event_details = [] then lnp lm EventDetailsNotExtracted
          else try_except (handle_event_body lm c self w event_details event_type)
                 (\<lambda>e. lnp lm (ErrorHandlingCallEvent e)))"

section \<open>Event ingestion loop: \<open>CallMonitor.monitor_calls\<close>\<close>

text \<open>
  One pass through the body of \<open>while True\<close>, for the event taken from the queue. The
  handler logs the traceback text and then the exception.
\<close>

definition monitor_calls_iteration :: "logger \<Rightarrow> config \<Rightarrow> xsi_user_map \<Rightarrow> env \<Rightarrow> pyval \<Rightarrow> unit io" where
  "monitor_calls_iteration lm c self w event =
     try_except
       (if truthy event then then_io (handle_event lm c self w event) (emit Sleep) else return_io ())
       (\<lambda>e. then_io (lnp lm (MonitoringLoopTraceback e)) (lnp lm (ErrorInMonitoringLoop e)))"

text \<open>
  The loop over the events put on the queue, each with the world in force when it is
  taken off. An exception that left an iteration would end the loop, and the events
  behind it would stay on the queue. The loop itself waits for ever on an empty queue;
  the model returns when the given events are consumed.
\<close>

fun monitor_calls :: "logger \<Rightarrow> config \<Rightarrow> xsi_user_map \<Rightarrow> (env \<times> pyval) list \<Rightarrow> unit io" where
  "monitor_calls lm c self [] = return_io ()"
| "monitor_calls lm c self ((w, event) # events_queue) =
     then_io (monitor_calls_iteration lm c self w event) (monitor_calls lm c self events_queue)"

section \<open>Directory build: \<open>CallMonitor.__init__\<close>\<close>

text \<open>
  One element of \<open>phoneNumbers\<close>: the \<open>primary\<close> flag, the direct number (\<open>None\<close>
  when the element has none) and the extension (\<open>None\<close> when the key is missing).
\<close>

record phone_number_info =
  primary :: bool
  directNumber :: "string option"
  pn_extension :: "string option"

text \<open>
  A member of the roster: the person's attributes, the outcome of \<open>person.start_xsi()\<close>
  (\<open>None\<close>: returns; \<open>Some e\<close>: raises \<open>e\<close>), and the outcome of reading the profile
  of the person's handle. \<open>wxc_numbers\<close> is \<open>None\<close> when it is not a dictionary,
  otherwise its \<open>phoneNumbers\<close> list (empty when the key is missing).
\<close>

record person =
  person_id :: string
  person_name :: string
  wxc_numbers :: "phone_number_info list option"
  start_xsi :: "exn option"
  profile :: "exn + (string \<times> pyval) list"

definition primary_phone_number :: "phone_number_info list \<Rightarrow> phone_number_info option" where
  "primary_phone_number phone_numbers_info =
     (case find primary phone_numbers_info of
        Some pn \<Rightarrow> Some pn
      | None \<Rightarrow> (case phone_numbers_info of [] \<Rightarrow> None | pn # _ \<Rightarrow> Some pn))"

definition user_entry_of :: "person \<Rightarrow> pyval \<Rightarrow> user_entry" where
  "user_entry_of p xsi_user_id' =
     (let phone_numbers_info = (case wxc_numbers p of Some pns \<Rightarrow> pns | None \<Rightarrow> []);
          ppn = primary_phone_number phone_numbers_info
      in \<lparr>remote_party_name = person_name p,
          xsi_user_id = xsi_user_id',
          webex_user_id = person_id p,
          phone_number = (case ppn of Some pn \<Rightarrow> directNumber pn
                                     | None \<Rightarrow> Some ''No number available''),
          extension = (case ppn of Some pn \<Rightarrow> (case pn_extension pn of Some x \<Rightarrow> Some x
                                                                          | None \<Rightarrow> Some [])
                                  | None \<Rightarrow> Some []),
          xsi_instance = Some (person_id p)\<rparr>)"

text \<open>
  The loop over \<open>self.all_people\<close>. Nothing in it is inside a \<open>try\<close> block: an
  exception of \<open>start_xsi\<close> or of the profile read leaves the loop and the constructor.
\<close>

fun build_xsi_user_map :: "person list \<Rightarrow> xsi_user_map \<Rightarrow> xsi_user_map io" where
  "build_xsi_user_map [] m = return_io m"
| "build_xsi_user_map (p # people) m =
     bind_io (lift_exn (case start_xsi p of None \<Rightarrow> Inr () | Some e \<Rightarrow> Inl e)) (\<lambda>_.
     bind_io (lift_exn (profile p)) (\<lambda>profile_info.
       let xsi_user_id' = dict_get profile_info ''user_id''
       in bind_io (lift_exn (if hashable xsi_user_id' then Inr () else Inl TypeError)) (\<lambda>_.
          build_xsi_user_map people (m(xsi_user_id' \<mapsto> user_entry_of p xsi_user_id')))))"

text \<open>
  \<open>CallMonitor.__init__\<close>: \<open>roster\<close> is the outcome of connecting to the platform and
  fetching the people of the organisation. The table of the directory is printed on the
  console, as the closing line is.
\<close>

definition CallMonitor_init :: "logger \<Rightarrow> exn + person list \<Rightarrow> xsi_user_map io" where
  "CallMonitor_init lm roster =
     bind_io (lift_exn roster) (\<lambda>all_people.
     bind_io (build_xsi_user_map all_people Map.empty) (\<lambda>m.
     then_io (lnp lm PrintXsiUserMap)
     (then_io (lnp lm CallMonitoringInitiated) (return_io m))))"

section \<open>Location-update endpoint: \<open>routes.update_time_location_db\<close>\<close>

text \<open>
  The request body (\<open>TimeLocationData\<close>; its declaration is not among the sources, the
  endpoint reads these four fields).
\<close>

record TimeLocationData =
  sessionToken :: string
  time :: string
  latitude :: real
  longitude :: real

text \<open>
  The storage layer as the endpoint uses it: the user id of the first \<open>user_list\<close> row
  with a session token, the allow-list query of the oracle, and the outcome of a write
  (\<open>None\<close>: returns; \<open>Some e\<close>: raises \<open>e\<close>).
\<close>

record storage =
  user_list_by_session_token :: "string \<Rightarrow> exn + string option"
  allow_list_by_user_id :: session
  write_outcome :: "action \<Rightarrow> exn option"

datatype response = JSONResponse (status_code: nat) (message: string)

text \<open>\<open>CRUDOperations.read_user_list(session_token=...)\<close>, called without \<open>user_id\<close>.\<close>

definition read_user_list :: "logger \<Rightarrow> storage \<Rightarrow> string \<Rightarrow> string option io" where
  "read_user_list lm st session_token =
     (if session_token \<noteq> [] then
        bind_io (lift_exn (user_list_by_session_token st session_token)) (\<lambda>user_list_entry.
          case user_list_entry of
            Some user_id \<Rightarrow> return_io (Some user_id)
          | None \<Rightarrow> then_io (lnp lm (NoUserListEntryFound session_token)) (return_io None))
      else lift_exn (Inl ValueError))"

definition storage_write :: "storage \<Rightarrow> action \<Rightarrow> unit io" where
  "storage_write st a =
     then_io (emit a) (lift_exn (case write_outcome st a of None \<Rightarrow> Inr () | Some e \<Rightarrow> Inl e))"

definition update_time_location_db :: "logger \<Rightarrow> config \<Rightarrow> storage \<Rightarrow> TimeLocationData \<Rightarrow> response io" where
  "update_time_location_db lm c st data =
     try_except
       (then_io (lnp lm (GeolocationUpdateReceived (sessionToken data)))
       (then_io (lnp lm (GeolocationUpdateData (sessionToken data) (time data)
                              (latitude data) (longitude data)))
       (bind_io (read_user_list lm st (sessionToken data)) (\<lambda>user_list_entry.
          case user_list_entry of
            None \<Rightarrow> return_io (JSONResponse 401 ''Invalid session token'')
          | Some user_id \<Rightarrow>
              if \<not> in_country c (latitude data) (longitude data) then
                then_io (lnp lm (LocationOutsideBoundaries (sessionToken data)))
                  (return_io (JSONResponse 403
                     ''User unauthorized: user location outside boundaries of allowed country''))
              else
                bind_io (get_allow_list_entry_by_user_id lm (allow_list_by_user_id st) user_id)
                  (\<lambda>allow_list_entry.
                    case allow_list_entry of
                      Some entry \<Rightarrow>
                        then_io (storage_write st
                                   (UpdateTimeLocationEntry user_id (sessionToken data) (time data)
                                      (latitude data) (longitude data)))
                          (return_io (JSONResponse 200
                             ''Geolocation updated successfully in database''))
                    | None \<Rightarrow>
                        then_io (lnp lm (AddingToAllowList user_id))
                        (then_io (storage_write st (CreateAllowListEntry user_id True))
                        (then_io (storage_write st
                                   (UpdateTimeLocationEntry user_id (sessionToken data) (time data)
                                      (latitude data) (longitude data)))
                          (return_io (JSONResponse 200
                             ''Geolocation updated and user added to AllowList'')))))))))
       (\<lambda>e. then_io (emit Rollback)
            (then_io (lnp lm (ErrorUpdatingGeolocation e))
              (return_io (JSONResponse 500
                 (case e of
                    StorageError text \<Rightarrow> ''Database error occurred while updating geolocation''
                  | _ \<Rightarrow> ''Unexpected error occurred while updating geolocation'')))))"

section \<open>Notions used by the properties\<close>

text \<open>
  The value found in a parsed notification by following a path of keys through nested
  dictionaries; \<open>None\<close> when a key of the path is missing or a value on the way is
  not a dictionary.
\<close>

fun at_path :: "string list \<Rightarrow> pyval \<Rightarrow> pyval option" where
  "at_path [] v = Some v"
| "at_path (k # ks) (PDict kvs) = (case map_of kvs k of None \<Rightarrow> None | Some v \<Rightarrow> at_path ks v)"
| "at_path (k # ks) v = None"

text \<open>The places of the four fields in a notification.\<close>

definition type_path :: "string list" where
  "type_path = [''xsi:Event'', ''xsi:eventData'', ''@xsi1:type'']"

definition call_id_path :: "string list" where
  "call_id_path = [''xsi:Event'', ''xsi:eventData'', ''xsi:call'', ''xsi:callId'']"

definition user_id_path :: "string list" where
  "user_id_path =
     [''xsi:Event'', ''xsi:eventData'', ''xsi:call'', ''xsi:remoteParty'', ''xsi:userId'']"

definition target_id_path :: "string list" where
  "target_id_path = [''xsi:Event'', ''xsi:targetId'']"

text \<open>The console printed every line of a trace: no logged text raised.\<close>

definition all_printed :: "logger \<Rightarrow> action list \<Rightarrow> bool" where
  "all_printed lm trace = list_all (\<lambda>a. case a of Log m \<Rightarrow> lm m = None | _ \<Rightarrow> True) trace"

text \<open>
  An identity of an event resolves in the directory as \<open>handle_internal_call\<close> tests it:
  \<open>self.xsi_user_map.get(x) if x else None\<close> is an entry.
\<close>

definition resolves :: "xsi_user_map \<Rightarrow> pyval \<Rightarrow> bool" where
  "resolves self ident =
     (truthy ident \<and> (case map_get self ident of Inr (Some entry) \<Rightarrow> True | _ \<Rightarrow> False))"

text \<open>
  For a roster member, everything the constructor asks of the platform succeeds: the
  subscription is activated and the profile is read, with an id that can be a key. The
  id is the \<open>user_id\<close> of the profile.
\<close>

definition activates :: "person \<Rightarrow> bool" where
  "activates p =
     (start_xsi p = None \<and>
      (case profile p of Inl e \<Rightarrow> False | Inr info \<Rightarrow> hashable (dict_get info ''user_id'')))"

definition internal_id :: "person \<Rightarrow> pyval" where
  "internal_id p = (case profile p of Inl e \<Rightarrow> PNone | Inr info \<Rightarrow> dict_get info ''user_id'')"

text \<open>A stored allow-list row with the coordinates of its samples blanked.\<close>

definition without_coordinates :: "AllowList \<Rightarrow> AllowList" where
  "without_coordinates row =
     row\<lparr>al_time_locations :=
           map (\<lambda>sample. sample\<lparr>tl_latitude := 0, tl_longitude := 0\<rparr>) (al_time_locations row)\<rparr>"

definition same_but_coordinates :: "exn + AllowList option \<Rightarrow> exn + AllowList option \<Rightarrow> bool" where
  "same_but_coordinates r1 r2 =
     (map_sum id (map_option without_coordinates) r1 =
      map_sum id (map_option without_coordinates) r2)"

section \<open>Concrete scenarios\<close>

text \<open>
  The texts interpolated into a message: the strings of its values, the keys of its
  dictionaries and the texts of its exceptions.
\<close>

fun pyval_texts :: "pyval \<Rightarrow> string list" where
  "pyval_texts PNone = []"
| "pyval_texts (PStr s) = [s]"
| "pyval_texts (PList xs) = concat (map pyval_texts xs)"
| "pyval_texts (PDict kvs) = concat (map (\<lambda>kv. fst kv # pyval_texts (snd kv)) kvs)"

fun exn_texts :: "exn \<Rightarrow> string list" where
  "exn_texts (MarkupError text) = [text]"
| "exn_texts (PlatformError text) = [text]"
| "exn_texts (StorageError text) = [text]"
| "exn_texts e = []"

fun interpolated :: "log_msg \<Rightarrow> string list" where
  "interpolated (ErrorExtractingEventDetails e) = exn_texts e"
| "interpolated (NoAllowListEntryFound u) = [u]"
| "interpolated (LatestGeolocationData u g) = [u, g_time g]"
| "interpolated (AllowedWithinUpdatePeriod u) = [u]"
| "interpolated (BlockedUpdateTimedOut u) = [u]"
| "interpolated (NoGeolocationDataFound u) = [u]"
| "interpolated (NotInAllowListOrNoData u) = [u]"
| "interpolated (NoXsiInstanceFound v) = pyval_texts v"
| "interpolated (EndedCall i) = [i]"
| "interpolated (FailedToEndCall v e) = pyval_texts v @ exn_texts e"
| "interpolated (NoActiveCallFound v) = pyval_texts v"
| "interpolated (BothPartiesInternal v) = pyval_texts v"
| "interpolated (InboundAllowed u v) = u # pyval_texts v"
| "interpolated (InboundBlocked u v) = u # pyval_texts v"
| "interpolated (OutboundAllowed u v) = u # pyval_texts v"
| "interpolated (OutboundBlocked u v) = u # pyval_texts v"
| "interpolated (ProcessingEvent t d) = pyval_texts t @ pyval_texts (PDict d)"
| "interpolated (HandlingCallEvent t i u v) =
     pyval_texts t @ pyval_texts i @ pyval_texts u @ pyval_texts v"
| "interpolated (UnhandledEventType t) = pyval_texts t"
| "interpolated (ErrorHandlingCallEvent e) = exn_texts e"
| "interpolated (MonitoringLoopTraceback e) = exn_texts e"
| "interpolated (ErrorInMonitoringLoop e) = exn_texts e"
| "interpolated (GeolocationUpdateReceived s) = [s]"
| "interpolated (GeolocationUpdateData s t lat lon) = [s, t]"
| "interpolated (NoUserListEntryFound s) = [s]"
| "interpolated (LocationOutsideBoundaries s) = [s]"
| "interpolated (AddingToAllowList u) = [u]"
| "interpolated (ErrorUpdatingGeolocation e) = exn_texts e"
| "interpolated m = []"

text \<open>
  The console of the scenarios. The text \<open>[/x]\<close> is a closing tag without an opening
  one: the console raises \<open>MarkupError\<close>, whose own text repeats the tag, for every
  message into which this text is interpolated, and prints every other message.
\<close>

definition console :: logger where
  "console m =
     (if ''[/x]'' \<in> set (interpolated m) then Some (MarkupError ''[/x]'') else None)"

text \<open>A console that prints every message.\<close>

definition plain_console :: logger where
  "plain_console m = None"

text \<open>The values of \<open>config/settings.py\<close>.\<close>

definition settings :: config where
  "settings = \<lparr>LAT_MIN = 10, LAT_MAX = 20, LON_MIN = 30, LON_MAX = 100,
               GEOLOCATION_TIMEOUT = 30\<rparr>"

text \<open>
  A directory of two monitored users: internal id \<open>100\<close> with account \<open>acct-1\<close> and
  internal id \<open>200\<close> with account \<open>acct-2\<close>.
\<close>

definition user_100 :: user_entry where
  "user_100 = \<lparr>remote_party_name = ''Uma'', xsi_user_id = PStr ''100'',
                webex_user_id = ''acct-1'', phone_number = Some ''+15550100'',
                extension = Some ''100'', xsi_instance = Some ''acct-1''\<rparr>"

definition user_200 :: user_entry where
  "user_200 = \<lparr>remote_party_name = ''Vic'', xsi_user_id = PStr ''200'',
                webex_user_id = ''acct-2'', phone_number = Some ''+15550200'',
                extension = Some ''200'', xsi_instance = Some ''acct-2''\<rparr>"

definition directory :: xsi_user_map where
  "directory = [PStr ''100'' \<mapsto> user_100, PStr ''200'' \<mapsto> user_200]"

text \<open>
  A notification of the given type for the call with the given id; \<open>target\<close> holds
  the \<open>xsi:targetId\<close> binding and \<open>remote\<close> the bindings of \<open>xsi:remoteParty\<close>.
\<close>

definition notification_for ::
  "string \<Rightarrow> string \<Rightarrow> (string \<times> pyval) list \<Rightarrow> (string \<times> pyval) list \<Rightarrow> pyval" where
  "notification_for call_id event_type target remote =
     PDict [(''xsi:Event'',
       PDict ((''xsi:eventData'',
                 PDict [(''@xsi1:type'', PStr event_type),
                        (''xsi:call'',
                           PDict [(''xsi:callId'', PStr call_id),
                                  (''xsi:remoteParty'', PDict remote)])]) # target))]"

definition notification :: "string \<Rightarrow> (string \<times> pyval) list \<Rightarrow> (string \<times> pyval) list \<Rightarrow> pyval" where
  "notification event_type target remote = notification_for ''call-7'' event_type target remote"

text \<open>A call received by \<open>100\<close> whose call id is the text \<open>[/x]\<close>.\<close>

definition received_for_100_tagged :: pyval where
  "received_for_100_tagged =
     notification_for ''[/x]'' ''xsi:CallReceivedEvent'' [(''xsi:targetId'', PStr ''100'')] []"

definition received_for_100 :: pyval where
  "received_for_100 =
     notification ''xsi:CallReceivedEvent'' [(''xsi:targetId'', PStr ''100'')] []"

definition originated_by_200_only :: pyval where
  "originated_by_200_only =
     notification ''xsi:CallOriginatedEvent'' [] [(''xsi:userId'', PStr ''200'')]"

definition received_200_to_100 :: pyval where
  "received_200_to_100 =
     notification ''xsi:CallReceivedEvent'' [(''xsi:targetId'', PStr ''100'')]
       [(''xsi:userId'', PStr ''200'')]"

text \<open>
  A notification without type discriminator; one whose type and caller id are not where
  the classifier reads them; and one that is not a dictionary.
\<close>

definition untyped_notification :: pyval where
  "untyped_notification =
     PDict [(''xsi:Event'', PDict [(''xsi:targetId'', PStr ''100'')])]"

definition misplaced_notification :: pyval where
  "misplaced_notification =
     PDict [(''xsi:Event'',
              PDict [(''@xsi1:type'', PStr ''xsi:CallReceivedEvent''),
                     (''xsi:userId'', PStr ''200''),
                     (''xsi:targetId'', PStr ''100'')])]"

definition malformed_notification :: pyval where
  "malformed_notification = PList [PStr ''xsi:Event'']"

text \<open>Sessions: no allow-list row for anybody; and a storage layer that raises.\<close>

definition empty_session :: session where
  "empty_session user_id = Inr None"

definition unreachable_session :: session where
  "unreachable_session user_id = Inl (StorageError ''database is locked'')"

text \<open>A session with one row for \<open>acct-1\<close> holding the given samples.\<close>

definition sample_at :: "real \<Rightarrow> real \<Rightarrow> real \<Rightarrow> TimeLocation" where
  "sample_at lat lon updated =
     \<lparr>tl_user_id = ''acct-1'', tl_session_token = ''token-1'', tl_time = ''12:00'',
      tl_latitude = lat, tl_longitude = lon, tl_last_update = updated\<rparr>"

definition session_with :: "TimeLocation list \<Rightarrow> session" where
  "session_with samples user_id =
     (if user_id = ''acct-1''
      then Inr (Some \<lparr>al_user_id = ''acct-1'', al_allow_caller = True,
                       al_time_locations = samples\<rparr>)
      else Inr None)"

text \<open>Two active calls for every handle; hanging up the first one raises.\<close>

definition two_calls :: "call list" where
  "two_calls = [\<lparr>id_call = ''call-7'', hangup = Some (PlatformError ''call already ended'')\<rparr>,
                \<lparr>id_call = ''call-8'', hangup = None\<rparr>]"

definition busy_platform :: platform where
  "busy_platform h = Inr two_calls"

text \<open>The same, with \<open>[/x]\<close> as the text of the error of the first hangup.\<close>

definition two_calls_tagged :: "call list" where
  "two_calls_tagged = [\<lparr>id_call = ''call-7'', hangup = Some (PlatformError ''[/x]'')\<rparr>,
                       \<lparr>id_call = ''call-8'', hangup = None\<rparr>]"

definition tagged_platform :: platform where
  "tagged_platform h = Inr two_calls_tagged"

definition world :: "session \<Rightarrow> env" where
  "world db = \<lparr>clock = 1000, db_session = db, xsi_platform = busy_platform\<rparr>"

text \<open>A roster of two members; activating the subscription of the first one raises.\<close>

definition member :: "string \<Rightarrow> string \<Rightarrow> exn option \<Rightarrow> person" where
  "member account xsi_id activation =
     \<lparr>person_id = account, person_name = account, wxc_numbers = None,
      start_xsi = activation, profile = Inr [(''user_id'', PStr xsi_id)]\<rparr>"

definition roster_first_fails :: "person list" where
  "roster_first_fails =
     [member ''acct-1'' ''100'' (Some (PlatformError ''XSI not enabled'')),
      member ''acct-2'' ''200'' None]"

definition roster_ok :: "person list" where
  "roster_ok = [member ''acct-1'' ''100'' None, member ''acct-2'' ''200'' None]"

text \<open>
  A storage layer that knows session \<open>token-1\<close> of \<open>acct-1\<close>, holds an allow-list
  row for that account and accepts every write; and a location report of that session.
\<close>

definition registered_storage :: storage where
  "registered_storage =
     \<lparr>user_list_by_session_token =
        (\<lambda>token. if token = ''token-1'' then Inr (Some ''acct-1'') else Inr None),
      allow_list_by_user_id = session_with [],
      write_outcome = (\<lambda>a. None)\<rparr>"

definition report_at :: "real \<Rightarrow> real \<Rightarrow> TimeLocationData" where
  "report_at lat lon =
     \<lparr>sessionToken = ''token-1'', time = ''12:00'', latitude = lat, longitude = lon\<rparr>"

section \<open>Properties\<close>

subsection \<open>Effects: projections of the combinators\<close>

lemma bind_io_simps:
  "bind_io (t, Inl e) f = (t, Inl e)"
  "bind_io (t, Inr x) f = (t @ fst (f x), snd (f x))"
  by (simp_all add: bind_io_def split: prod.splits)

lemma try_except_simps:
  "try_except (t, Inl e) h = (t @ fst (h e), snd (h e))"
  "try_except (t, Inr x) h = (t, Inr x)"
  by (simp_all add: try_except_def split: prod.splits)

lemma snd_bind_io:
  "snd (bind_io m f) = (case snd m of Inl e \<Rightarrow> Inl e | Inr x \<Rightarrow> snd (f x))"
  by (cases m; cases "snd m") (auto simp: bind_io_simps)

lemma fst_bind_io:
  "fst (bind_io m f) = (case snd m of Inl e \<Rightarrow> fst m | Inr x \<Rightarrow> fst m @ fst (f x))"
  by (cases m; cases "snd m") (auto simp: bind_io_simps)

lemma snd_then_io:
  "snd (then_io m n) = (case snd m of Inl e \<Rightarrow> Inl e | Inr x \<Rightarrow> snd n)"
  by (simp add: then_io_def snd_bind_io)

lemma fst_then_io:
  "fst (then_io m n) = (case snd m of Inl e \<Rightarrow> fst m | Inr x \<Rightarrow> fst m @ fst n)"
  by (simp add: then_io_def fst_bind_io)

lemma snd_try_except:
  "snd (try_except m h) = (case snd m of Inl e \<Rightarrow> snd (h e) | Inr x \<Rightarrow> Inr x)"
  by (cases m; cases "snd m") (auto simp: try_except_simps)

lemma fst_try_except:
  "fst (try_except m h) = (case snd m of Inl e \<Rightarrow> fst m @ fst (h e) | Inr x \<Rightarrow> fst m)"
  by (cases m; cases "snd m") (auto simp: try_except_simps)

lemma io_basics [simp]:
  "fst (return_io x) = []" "snd (return_io x) = Inr x"
  "fst (emit a) = [a]" "snd (emit a) = Inr ()"
  "fst (lift_exn r) = []" "snd (lift_exn r) = r"
  by (simp_all add: return_io_def emit_def lift_exn_def)

lemmas io_simps =
  snd_bind_io fst_bind_io snd_then_io fst_then_io snd_try_except fst_try_except

lemma fst_lnp [simp]: "fst (lnp lm m) = [Log m]"
  by (simp add: lnp_def io_simps)

lemma snd_lnp: "snd (lnp lm m) = (case lm m of None \<Rightarrow> Inr () | Some e \<Rightarrow> Inl e)"
  by (simp add: lnp_def io_simps)

lemma snd_lnp_printed [simp]: "lm m = None \<Longrightarrow> snd (lnp lm m) = Inr ()"
  by (simp add: snd_lnp)

lemma all_printed_simps [simp]:
  "all_printed lm []"
  "all_printed lm (Log m # t) = (lm m = None \<and> all_printed lm t)"
  "all_printed lm (LogOnly m # t) = all_printed lm t"
  "all_printed lm (CheckUserPermission u # t) = all_printed lm t"
  "all_printed lm (RejectCall v k # t) = all_printed lm t"
  "all_printed lm (ReadActiveCalls h # t) = all_printed lm t"
  "all_printed lm (Hangup i # t) = all_printed lm t"
  "all_printed lm (Sleep # t) = all_printed lm t"
  "all_printed lm (xs @ ys) = (all_printed lm xs \<and> all_printed lm ys)"
  by (simp_all add: all_printed_def)

lemma bind_io_lift_exn_Inr: "bind_io (lift_exn (Inr x)) f = f x"
  by (simp add: lift_exn_def bind_io_simps)

subsection \<open>Scenarios: unfolding the model\<close>

lemmas model_defs =
  handle_event_def handle_event_body_def handle_internal_call_def handle_external_call_def
  extract_event_details_def extract_event_details_body_def check_user_permission_def
  get_allow_list_entry_by_user_id_def is_geolocation_timeout_def reject_call_def
  monitor_calls_iteration_def max_last_update_def geolocation_of_def
  py_get_def py_lower_def bind_exn_def map_get_def dict_get_def lnp_def
  bind_io_def then_io_def try_except_def return_io_def emit_def lift_exn_def
  CallReceivedEvent_def CallOriginatedEvent_def Let_def

lemmas scenario_defs =
  console_def plain_console_def
  settings_def directory_def user_100_def user_200_def notification_def notification_for_def
  received_for_100_def received_for_100_tagged_def originated_by_200_only_def
  received_200_to_100_def untyped_notification_def misplaced_notification_def
  malformed_notification_def empty_session_def unreachable_session_def sample_at_def
  session_with_def two_calls_def busy_platform_def two_calls_tagged_def tagged_platform_def
  world_def

subsection \<open>The classifier\<close>

lemma bind_exn_Inr_iff:
  "(bind_exn m f = Inr y) = (\<exists>x. m = Inr x \<and> f x = Inr y)"
  by (cases m) (simp_all add: bind_exn_def)

lemma bind_exn_Inl_iff:
  "(bind_exn m f = Inl e) = (m = Inl e \<or> (\<exists>x. m = Inr x \<and> f x = Inl e))"
  by (cases m) (simp_all add: bind_exn_def)

lemma py_get_Inl: "py_get obj k dflt = Inl e \<Longrightarrow> e = AttributeError"
  by (auto simp: py_get_def split: pyval.splits)

lemma py_lower_Inl: "py_lower v = Inl e \<Longrightarrow> e = AttributeError"
  by (auto simp: py_lower_def split: pyval.splits)

lemma extract_event_details_body_raises:
  assumes "extract_event_details_body event = Inl e"
  shows "e = AttributeError"
  using assms
  by (auto simp: extract_event_details_body_def bind_exn_Inl_iff
           dest: py_get_Inl py_lower_Inl split: if_splits)

lemma snd_extract_event_details:
  "snd (extract_event_details lm event) =
     (case extract_event_details_body event of
        Inr d \<Rightarrow> Inr d
      | Inl e \<Rightarrow> (case lm (ErrorExtractingEventDetails AttributeError) of
                    None \<Rightarrow> Inr [] | Some e' \<Rightarrow> Inl e'))"
  by (auto simp: extract_event_details_def io_simps snd_lnp
           dest: extract_event_details_body_raises split: sum.splits option.splits)

lemma fst_extract_event_details:
  "fst (extract_event_details lm event) =
     (case extract_event_details_body event of
        Inl e \<Rightarrow> [Log (ErrorExtractingEventDetails AttributeError)] | Inr d \<Rightarrow> [])"
  by (auto simp: extract_event_details_def io_simps
           dest: extract_event_details_body_raises split: sum.splits)



subsection \<open>Absent keys and events without type\<close>

lemma extract_event_details_body_fields:
  assumes "extract_event_details_body event = Inr d"
  shows "\<exists>xsi_event event_data call_info remote_party_info.
           py_get event ''xsi:Event'' (PDict []) = Inr xsi_event \<and>
           py_get xsi_event ''xsi:eventData'' (PDict []) = Inr event_data \<and>
           py_get event_data ''@xsi1:type'' (PDict []) = Inr (dict_get d ''event_type'') \<and>
           py_get event_data ''xsi:call'' (PDict []) = Inr call_info \<and>
           py_get xsi_event ''xsi:targetId'' (PDict []) = Inr (dict_get d ''target_id'') \<and>
           py_get call_info ''xsi:callId'' (PStr []) = Inr (dict_get d ''call_id'') \<and>
           py_get call_info ''xsi:remoteParty'' (PDict []) = Inr remote_party_info \<and>
           py_get remote_party_info ''xsi:userId'' (PDict []) = Inr (dict_get d ''user_id'') \<and>
           d \<noteq> []"
  using assms
  by (auto simp: extract_event_details_body_def bind_exn_Inr_iff dict_get_def)

text \<open>One step of a path, read as the classifier reads it.\<close>

lemma py_get_at_path_last:
  assumes "py_get obj k dflt = Inr v" and "at_path [k] obj = None \<or> obj = PDict []"
  shows "v = dflt"
  using assms by (auto simp: py_get_def split: pyval.splits option.splits)

lemma at_path_step:
  assumes "py_get obj k (PDict []) = Inr v" and "at_path (k # ks) obj = None \<or> obj = PDict []"
      and "ks \<noteq> []"
  shows "at_path ks v = None \<or> v = PDict []"
  using assms by (auto simp: py_get_def split: pyval.splits option.splits)

lemma absent_field_empty:
  assumes "extract_event_details_body event = Inr d"
  shows "at_path type_path event = None \<Longrightarrow> dict_get d ''event_type'' = PDict []"
    and "at_path call_id_path event = None \<Longrightarrow> dict_get d ''call_id'' = PStr []"
    and "at_path user_id_path event = None \<Longrightarrow> dict_get d ''user_id'' = PDict []"
    and "at_path target_id_path event = None \<Longrightarrow> dict_get d ''target_id'' = PDict []"
proof -
  from extract_event_details_body_fields[OF assms]
  obtain xsi_event event_data call_info remote_party_info where
    f: "py_get event ''xsi:Event'' (PDict []) = Inr xsi_event"
       "py_get xsi_event ''xsi:eventData'' (PDict []) = Inr event_data"
       "py_get event_data ''@xsi1:type'' (PDict []) = Inr (dict_get d ''event_type'')"
       "py_get event_data ''xsi:call'' (PDict []) = Inr call_info"
       "py_get xsi_event ''xsi:targetId'' (PDict []) = Inr (dict_get d ''target_id'')"
       "py_get call_info ''xsi:callId'' (PStr []) = Inr (dict_get d ''call_id'')"
       "py_get call_info ''xsi:remoteParty'' (PDict []) = Inr remote_party_info"
       "py_get remote_party_info ''xsi:userId'' (PDict []) = Inr (dict_get d ''user_id'')"
    by blast
  show "dict_get d ''event_type'' = PDict []" if a: "at_path type_path event = None"
  proof -
    have 1: "at_path [''xsi:eventData'', ''@xsi1:type''] xsi_event = None \<or> xsi_event = PDict []"
      using at_path_step[OF f(1), of "[''xsi:eventData'', ''@xsi1:type'']"] a
      by (simp add: type_path_def)
    have 2: "at_path [''@xsi1:type''] event_data = None \<or> event_data = PDict []"
      using at_path_step[OF f(2), of "[''@xsi1:type'']"] 1 by simp
    show ?thesis
      using py_get_at_path_last[OF f(3)] 2 by simp
  qed
  show "dict_get d ''call_id'' = PStr []" if a: "at_path call_id_path event = None"
  proof -
    have 1: "at_path [''xsi:eventData'', ''xsi:call'', ''xsi:callId''] xsi_event = None
             \<or> xsi_event = PDict []"
      using at_path_step[OF f(1), of "[''xsi:eventData'', ''xsi:call'', ''xsi:callId'']"] a
      by (simp add: call_id_path_def)
    have 2: "at_path [''xsi:call'', ''xsi:callId''] event_data = None \<or> event_data = PDict []"
      using at_path_step[OF f(2), of "[''xsi:call'', ''xsi:callId'']"] 1 by simp
    have 3: "at_path [''xsi:callId''] call_info = None \<or> call_info = PDict []"
      using at_path_step[OF f(4), of "[''xsi:callId'']"] 2 by simp
    show ?thesis
      using py_get_at_path_last[OF f(6)] 3 by simp
  qed
  show "dict_get d ''user_id'' = PDict []" if a: "at_path user_id_path event = None"
  proof -
    have 1: "at_path [''xsi:eventData'', ''xsi:call'', ''xsi:remoteParty'', ''xsi:userId''] xsi_event
               = None \<or> xsi_event = PDict []"
      using at_path_step[OF f(1),
              of "[''xsi:eventData'', ''xsi:call'', ''xsi:remoteParty'', ''xsi:userId'']"] a
      by (simp add: user_id_path_def)
    have 2: "at_path [''xsi:call'', ''xsi:remoteParty'', ''xsi:userId''] event_data = None
             \<or> event_data = PDict []"
      using at_path_step[OF f(2), of "[''xsi:call'', ''xsi:remoteParty'', ''xsi:userId'']"] 1
      by simp
    have 3: "at_path [''xsi:remoteParty'', ''xsi:userId''] call_info = None \<or> call_info = PDict []"
      using at_path_step[OF f(4), of "[''xsi:remoteParty'', ''xsi:userId'']"] 2 by simp
    have 4: "at_path [''xsi:userId''] remote_party_info = None \<or> remote_party_info = PDict []"
      using at_path_step[OF f(7), of "[''xsi:userId'']"] 3 by simp
    show ?thesis
      using py_get_at_path_last[OF f(8)] 4 by simp
  qed
  show "dict_get d ''target_id'' = PDict []" if a: "at_path target_id_path event = None"
  proof -
    have 1: "at_path [''xsi:targetId''] xsi_event = None \<or> xsi_event = PDict []"
      using at_path_step[OF f(1), of "[''xsi:targetId'']"] a
      by (simp add: target_id_path_def)
    show ?thesis
      using py_get_at_path_last[OF f(5)] 1 by simp
  qed
qed

lemma dict_get_Nil [simp]: "dict_get [] k = PNone"
  by (simp add: dict_get_def)

lemma CallEvent_neq [simp]:
  "CallReceivedEvent \<noteq> PDict kvs" "CallOriginatedEvent \<noteq> PDict kvs"
  "CallReceivedEvent \<noteq> PNone" "CallOriginatedEvent \<noteq> PNone"
  "PDict kvs \<noteq> CallReceivedEvent" "PDict kvs \<noteq> CallOriginatedEvent"
  "PNone \<noteq> CallReceivedEvent" "PNone \<noteq> CallOriginatedEvent"
  by (simp_all add: CallReceivedEvent_def CallOriginatedEvent_def)

text \<open>What \<open>handle_event\<close> does when the classified type is not a call event.\<close>

lemma handle_event_not_a_call_event:
  assumes "extract_event_details_body event = Inr d"
      and "dict_get d ''event_type'' \<noteq> CallReceivedEvent"
      and "dict_get d ''event_type'' \<noteq> CallOriginatedEvent"
  shows "handle_event lm c self w event = ([], Inr ())"
proof -
  from extract_event_details_body_fields[OF assms(1)] have "d \<noteq> []"
    by blast
  with assms show ?thesis
    by (simp add: prod_eq_iff handle_event_def handle_event_body_def io_simps
          snd_extract_event_details fst_extract_event_details Let_def)
qed

lemma handle_event_unclassified:
  assumes "extract_event_details_body event = Inl e"
  shows "fst (handle_event lm c self w event) =
           Log (ErrorExtractingEventDetails AttributeError) #
           (case lm (ErrorExtractingEventDetails AttributeError) of
              None \<Rightarrow> [Log EventDetailsNotExtracted] | Some e' \<Rightarrow> [])"
    and "snd (handle_event lm c self w event) =
           (case lm (ErrorExtractingEventDetails AttributeError) of
              None \<Rightarrow> (case lm EventDetailsNotExtracted of None \<Rightarrow> Inr () | Some e' \<Rightarrow> Inl e')
            | Some e' \<Rightarrow> Inl e')"
  using assms
  by (simp_all add: handle_event_def io_simps snd_extract_event_details
        fst_extract_event_details snd_lnp Let_def split: option.splits)

text \<open>
  C6. The classifier is total and malformed input is ignorable. For every raw event,
  when the console prints the one line the classifier logs (the text of an
  \<open>AttributeError\<close>), \<open>extract_event_details\<close> returns a record and does not raise,
  and a field whose key is absent from the place where the classifier reads it is empty
  or \<open>None\<close> in that record. For an event without type discriminator in its place,
  \<open>handle_event\<close> performs no permission query and never calls \<open>reject_call\<close>,
  whatever the console does, and returns when the console prints its lines.
\<close>

theorem C6_classifier_total_and_ignorable:
  "(lm (ErrorExtractingEventDetails AttributeError) = None \<longrightarrow>
      (\<exists>d. snd (extract_event_details lm event) = Inr d \<and>
           (at_path type_path event = None \<longrightarrow> \<not> truthy (dict_get d ''event_type'')) \<and>
           (at_path call_id_path event = None \<longrightarrow> \<not> truthy (dict_get d ''call_id'')) \<and>
           (at_path user_id_path event = None \<longrightarrow> \<not> truthy (dict_get d ''user_id'')) \<and>
           (at_path target_id_path event = None \<longrightarrow> \<not> truthy (dict_get d ''target_id'')))) \<and>
   (at_path type_path event = None \<longrightarrow>
      (\<forall>account. CheckUserPermission account \<notin> set (fst (handle_event lm c self w event))) \<and>
      (\<forall>user_id call_id.
         RejectCall user_id call_id \<notin> set (fst (handle_event lm c self w event))) \<and>
      (lm (ErrorExtractingEventDetails AttributeError) = None \<and>
       lm EventDetailsNotExtracted = None \<longrightarrow>
         snd (handle_event lm c self w event) = Inr ()))"
proof (cases "extract_event_details_body event")
  case (Inl e)
  then show ?thesis
    using handle_event_unclassified[OF Inl, of lm c self w]
    by (auto simp: snd_extract_event_details split: option.splits)
next
  case (Inr d)
  have "handle_event lm c self w event = ([], Inr ())" if "at_path type_path event = None"
    using handle_event_not_a_call_event[OF Inr, of lm c self w] absent_field_empty(1)[OF Inr that]
    by simp
  then show ?thesis
    using Inr absent_field_empty[OF Inr]
    by (auto simp: snd_extract_event_details)
qed

text \<open>
  A notification with a target but without type, call id and remote party; one whose
  type and caller id occur, but not where the classifier reads them; and a value that
  is not a dictionary.
\<close>

theorem C6_classifier_total_and_ignorable_witness:
  "(\<exists>d. snd (extract_event_details console untyped_notification) = Inr d \<and>
        \<not> truthy (dict_get d ''event_type'') \<and> \<not> truthy (dict_get d ''call_id'') \<and>
        \<not> truthy (dict_get d ''user_id'')) \<and>
   (\<exists>d. snd (extract_event_details console misplaced_notification) = Inr d \<and>
        \<not> truthy (dict_get d ''event_type'') \<and> \<not> truthy (dict_get d ''user_id'')) \<and>
   (\<exists>d. snd (extract_event_details console malformed_notification) = Inr d \<and>
        \<not> truthy (dict_get d ''target_id'')) \<and>
   snd (handle_event console settings directory (world empty_session) misplaced_notification)
     = Inr () \<and>
   (\<forall>account. CheckUserPermission account
        \<notin> set (fst (handle_event console settings directory (world empty_session)
                       misplaced_notification))) \<and>
   (\<forall>user_id call_id. RejectCall user_id call_id
        \<notin> set (fst (handle_event console settings directory (world empty_session)
                       misplaced_notification)))"
proof -
  have prints:
    "console (ErrorExtractingEventDetails AttributeError) = None"
    "console EventDetailsNotExtracted = None"
    by (simp_all add: console_def)
  have absent:
    "at_path type_path untyped_notification = None"
    "at_path call_id_path untyped_notification = None"
    "at_path user_id_path untyped_notification = None"
    "at_path type_path misplaced_notification = None"
    "at_path user_id_path misplaced_notification = None"
    "at_path target_id_path malformed_notification = None"
    by (simp_all add: type_path_def call_id_path_def user_id_path_def target_id_path_def
          untyped_notification_def misplaced_notification_def malformed_notification_def)
  show ?thesis
    using prints absent
      C6_classifier_total_and_ignorable
        [of console untyped_notification settings directory "world empty_session"]
      C6_classifier_total_and_ignorable
        [of console misplaced_notification settings directory "world empty_session"]
      C6_classifier_total_and_ignorable
        [of console malformed_notification settings directory "world empty_session"]
    by blast
qed

subsection \<open>Calls between two internal parties\<close>

text \<open>
  With both ids truthy the body of \<open>handle_event\<close> is \<open>handle_internal_call\<close>: no
  oracle, no actuator.
\<close>

lemma no_calls_in_handle_internal_call:
  "CheckUserPermission account \<notin> set (fst (handle_internal_call lm self u t k))"
  "RejectCall user_id call_id \<notin> set (fst (handle_internal_call lm self u t k))"
  by (auto simp: handle_internal_call_def io_simps split: sum.splits if_splits)

lemma handle_event_body_both_truthy:
  assumes "truthy (dict_get d ''user_id'')" and "truthy (dict_get d ''target_id'')"
  shows "CheckUserPermission account \<notin> set (fst (handle_event_body lm c self w d ty))"
    and "RejectCall user_id call_id \<notin> set (fst (handle_event_body lm c self w d ty))"
  using assms no_calls_in_handle_internal_call
  by (auto simp: handle_event_body_def io_simps Let_def split: sum.splits if_splits)

lemma fst_handle_event_classified:
  assumes "extract_event_details_body event = Inr d"
  shows "fst (handle_event lm c self w event) =
           fst (try_except (handle_event_body lm c self w d (dict_get d ''event_type''))
                  (\<lambda>e. lnp lm (ErrorHandlingCallEvent e)))"
    and "snd (handle_event lm c self w event) =
           snd (try_except (handle_event_body lm c self w d (dict_get d ''event_type''))
                  (\<lambda>e. lnp lm (ErrorHandlingCallEvent e)))"
proof -
  from extract_event_details_body_fields[OF assms] have "d \<noteq> []"
    by blast
  with assms show
    "fst (handle_event lm c self w event) =
           fst (try_except (handle_event_body lm c self w d (dict_get d ''event_type''))
                  (\<lambda>e. lnp lm (ErrorHandlingCallEvent e)))"
    "snd (handle_event lm c self w event) =
           snd (try_except (handle_event_body lm c self w d (dict_get d ''event_type''))
                  (\<lambda>e. lnp lm (ErrorHandlingCallEvent e)))"
    by (simp_all add: handle_event_def io_simps snd_extract_event_details
          fst_extract_event_details Let_def)
qed

text \<open>
  C2. For every event whose caller id and target id both resolve in the directory,
  \<open>handle_event\<close> never calls \<open>check_user_permission\<close> and never calls
  \<open>reject_call\<close>, whatever the clock, the storage, the platform and the console are.
  When the console prints the lines of the run, \<open>handle_event\<close> returns, and all it
  does for a call event is write its two progress lines and the line that both parties
  are internal; for any other event it does nothing.
\<close>

theorem C2_internal_internal_bypass:
  assumes "snd (extract_event_details lm event) = Inr event_details"
      and "resolves self (dict_get event_details ''user_id'')"
      and "resolves self (dict_get event_details ''target_id'')"
  shows "(\<forall>account. CheckUserPermission account \<notin> set (fst (handle_event lm c self w event))) \<and>
         (\<forall>user_id call_id.
            RejectCall user_id call_id \<notin> set (fst (handle_event lm c self w event))) \<and>
         (all_printed lm (fst (handle_event lm c self w event)) \<longrightarrow>
            snd (handle_event lm c self w event) = Inr () \<and>
            fst (handle_event lm c self w event) =
              (if dict_get event_details ''event_type'' = CallReceivedEvent \<or>
                  dict_get event_details ''event_type'' = CallOriginatedEvent
               then [Log (ProcessingEvent (dict_get event_details ''event_type'') event_details),
                     Log (HandlingCallEvent (dict_get event_details ''event_type'')
                            (dict_get event_details ''call_id'')
                            (dict_get event_details ''user_id'')
                            (dict_get event_details ''target_id'')),
                     Log (BothPartiesInternal (dict_get event_details ''call_id''))]
               else []))"
proof -
  from assms(2) have ne: "event_details \<noteq> []"
    by (auto simp: resolves_def)
  with assms(1) have body: "extract_event_details_body event = Inr event_details"
    by (auto simp: snd_extract_event_details split: sum.splits option.splits)
  from assms(2,3) obtain a b where
    r: "truthy (dict_get event_details ''user_id'')"
       "truthy (dict_get event_details ''target_id'')"
       "map_get self (dict_get event_details ''user_id'') = Inr (Some a)"
       "map_get self (dict_get event_details ''target_id'') = Inr (Some b)"
    by (auto simp: resolves_def split: sum.splits option.splits)
  note unfolded = fst_handle_event_classified[OF body, of lm c self w]
  have never:
    "CheckUserPermission account \<notin> set (fst (handle_event lm c self w event))"
    "RejectCall user_id call_id \<notin> set (fst (handle_event lm c self w event))"
    for account user_id call_id
    using handle_event_body_both_truthy[OF r(1,2)]
    by (auto simp: unfolded(1) fst_try_except split: sum.splits)
  have printed: "snd (handle_event lm c self w event) = Inr () \<and>
            fst (handle_event lm c self w event) =
              (if dict_get event_details ''event_type'' = CallReceivedEvent \<or>
                  dict_get event_details ''event_type'' = CallOriginatedEvent
               then [Log (ProcessingEvent (dict_get event_details ''event_type'') event_details),
                     Log (HandlingCallEvent (dict_get event_details ''event_type'')
                            (dict_get event_details ''call_id'')
                            (dict_get event_details ''user_id'')
                            (dict_get event_details ''target_id'')),
                     Log (BothPartiesInternal (dict_get event_details ''call_id''))]
               else [])"
    if "all_printed lm (fst (handle_event lm c self w event))"
    using that r
    by (auto simp: unfolded handle_event_body_def handle_internal_call_def io_simps Let_def
             snd_lnp split: sum.splits option.splits if_splits)
  from never printed show ?thesis
    by blast
qed

text \<open>
  Scenario C of the specification: a call received by \<open>100\<close> from \<open>200\<close>, both in the
  directory, while the storage layer raises on every query.
\<close>

theorem C2_internal_internal_bypass_witness:
  "(\<forall>account. CheckUserPermission account
        \<notin> set (fst (handle_event console settings directory (world unreachable_session)
                       received_200_to_100))) \<and>
   (\<forall>user_id call_id. RejectCall user_id call_id
        \<notin> set (fst (handle_event console settings directory (world unreachable_session)
                       received_200_to_100))) \<and>
   snd (handle_event console settings directory (world unreachable_session) received_200_to_100)
     = Inr ()"
proof -
  define details where
    "details = [(''event_type'', PStr ''xsi:CallReceivedEvent''), (''call_id'', PStr ''call-7''),
                (''user_id'', PStr ''200''), (''target_id'', PStr ''100'')]"
  have classified: "snd (extract_event_details console received_200_to_100) = Inr details"
    by (simp add: model_defs scenario_defs details_def)
  have caller: "resolves directory (dict_get details ''user_id'')"
    by (simp add: resolves_def map_get_def directory_def dict_get_def details_def)
  have target: "resolves directory (dict_get details ''target_id'')"
    by (simp add: resolves_def map_get_def directory_def dict_get_def details_def)
  have printed: "all_printed console
                   (fst (handle_event console settings directory (world unreachable_session)
                           received_200_to_100))"
    by (simp add: model_defs scenario_defs)
  from C2_internal_internal_bypass
         [OF classified caller target, of settings "world unreachable_session"] printed
  show ?thesis
    by blast
qed

subsection \<open>The permission oracle\<close>

lemma Max_insert_absorb:
  fixes a b :: real
  assumes "finite S" and "a \<le> b"
  shows "Max (insert a (insert b S)) = Max (insert b S)"
proof -
  define M where "M = Max (insert b S)"
  have ge: "b \<le> M"
    unfolding M_def using assms(1) by (intro Max_ge) simp_all
  have "Max (insert a (insert b S)) = max a M"
    unfolding M_def using assms(1) by (intro Max_insert) simp_all
  also have "\<dots> = M"
    using ge assms(2) by (simp add: max_def)
  finally show ?thesis
    by (simp add: M_def)
qed

lemma g_last_update_geolocation_of [simp]:
  "g_last_update (geolocation_of s) = Some (tl_last_update s)"
  by (simp add: geolocation_of_def)

lemma max_last_update_from_samples:
  "\<exists>g. max_last_update_from (geolocation_of b) (map geolocation_of xs) = Inr g \<and>
       g_last_update g = Some (Max (insert (tl_last_update b) (tl_last_update ` set xs)))"
proof (induction xs arbitrary: b)
  case Nil
  then show ?case by simp
next
  case (Cons x xs)
  show ?case
  proof (cases "tl_last_update x > tl_last_update b")
    case True
    from Cons.IH[of x] obtain g where
      g: "max_last_update_from (geolocation_of x) (map geolocation_of xs) = Inr g"
         "g_last_update g = Some (Max (insert (tl_last_update x) (tl_last_update ` set xs)))"
      by blast
    have "Max (insert (tl_last_update b) (insert (tl_last_update x) (tl_last_update ` set xs))) =
          Max (insert (tl_last_update x) (tl_last_update ` set xs))"
      using True by (intro Max_insert_absorb) simp_all
    with g True show ?thesis by simp
  next
    case False
    from Cons.IH[of b] obtain g where
      g: "max_last_update_from (geolocation_of b) (map geolocation_of xs) = Inr g"
         "g_last_update g = Some (Max (insert (tl_last_update b) (tl_last_update ` set xs)))"
      by blast
    have "Max (insert (tl_last_update x) (insert (tl_last_update b) (tl_last_update ` set xs))) =
          Max (insert (tl_last_update b) (tl_last_update ` set xs))"
      using False by (intro Max_insert_absorb) simp_all
    with g False show ?thesis by (simp add: insert_commute)
  qed
qed

lemma max_last_update_samples:
  assumes "xs \<noteq> []"
  shows "\<exists>g. max_last_update (map geolocation_of xs) = Inr g \<and>
             g_last_update g = Some (Max (tl_last_update ` set xs))"
proof -
  from assms obtain b ys where "xs = b # ys"
    by (cases xs) auto
  then show ?thesis
    using max_last_update_from_samples[of b ys] by (simp add: max_last_update_def)
qed

lemma check_user_permission_result:
  assumes "all_printed lm (fst (check_user_permission lm c now db user_id))"
  shows "snd (check_user_permission lm c now db user_id) =
     (case db user_id of
        Inl e \<Rightarrow> Inl e
      | Inr None \<Rightarrow> Inr False
      | Inr (Some row) \<Rightarrow>
          Inr (al_time_locations row \<noteq> [] \<and>
               now - Max (tl_last_update ` set (al_time_locations row)) \<le> GEOLOCATION_TIMEOUT c))"
proof (cases "db user_id")
  case (Inl e)
  then show ?thesis
    by (simp add: check_user_permission_def get_allow_list_entry_by_user_id_def io_simps)
next
  case (Inr r)
  show ?thesis
  proof (cases r)
    case None
    with Inr assms show ?thesis
      by (simp add: check_user_permission_def get_allow_list_entry_by_user_id_def io_simps
            split: sum.splits)
  next
    case (Some row)
    show ?thesis
    proof (cases "al_time_locations row = []")
      case True
      with Inr Some assms show ?thesis
        by (simp add: check_user_permission_def get_allow_list_entry_by_user_id_def io_simps
              split: sum.splits)
    next
      case False
      from max_last_update_samples[OF False] obtain g where
        g: "max_last_update (map geolocation_of (al_time_locations row)) = Inr g"
           "g_last_update g = Some (Max (tl_last_update ` set (al_time_locations row)))"
        by blast
      with Inr Some False assms show ?thesis
        by (simp add: check_user_permission_def get_allow_list_entry_by_user_id_def
              is_geolocation_timeout_def io_simps not_less split: sum.splits if_splits)
    qed
  qed
qed

text \<open>
  C4. The staleness boundary is inclusive: for a user with an allow-list row and at
  least one stored sample, with \<open>freshest\<close> the greatest \<open>last_update\<close> of the samples,
  in a run whose lines the console prints, the user is permitted when \<open>now - freshest\<close>
  equals the timeout and not permitted when it exceeds the timeout; in general the
  answer is \<open>now - freshest \<le> timeout\<close>.
\<close>

theorem C4_staleness_boundary_inclusive:
  assumes "db user_id = Inr (Some row)"
      and "al_time_locations row \<noteq> []"
      and "freshest = Max (tl_last_update ` set (al_time_locations row))"
      and "all_printed lm (fst (check_user_permission lm c now db user_id))"
  shows "(now - freshest = GEOLOCATION_TIMEOUT c \<longrightarrow>
            snd (check_user_permission lm c now db user_id) = Inr True) \<and>
         (now - freshest > GEOLOCATION_TIMEOUT c \<longrightarrow>
            snd (check_user_permission lm c now db user_id) = Inr False) \<and>
         snd (check_user_permission lm c now db user_id) =
            Inr (now - freshest \<le> GEOLOCATION_TIMEOUT c)"
  using assms(1-3) by (simp add: check_user_permission_result[OF assms(4)])

text \<open>
  Samples updated at 900 and 970 with the timeout of 30 seconds: permitted at 1000 (a
  difference of exactly 30), not permitted at 1001.
\<close>

theorem C4_staleness_boundary_inclusive_witness:
  "snd (check_user_permission console settings 1000
          (session_with [sample_at 15 50 900, sample_at 15 50 970]) ''acct-1'') = Inr True \<and>
   snd (check_user_permission console settings 1001
          (session_with [sample_at 15 50 900, sample_at 15 50 970]) ''acct-1'') = Inr False"
proof -
  define row where
    "row = \<lparr>al_user_id = ''acct-1'', al_allow_caller = True,
             al_time_locations = [sample_at 15 50 900, sample_at 15 50 970]\<rparr>"
  have stored: "session_with [sample_at 15 50 900, sample_at 15 50 970] ''acct-1'' = Inr (Some row)"
    by (simp add: session_with_def row_def)
  have samples: "al_time_locations row \<noteq> []"
    by (simp add: row_def)
  have freshest: "970 = Max (tl_last_update ` set (al_time_locations row))"
    by (simp add: row_def sample_at_def)
  have printed:
    "all_printed console (fst (check_user_permission console settings 1000
        (session_with [sample_at 15 50 900, sample_at 15 50 970]) ''acct-1''))"
    "all_printed console (fst (check_user_permission console settings 1001
        (session_with [sample_at 15 50 900, sample_at 15 50 970]) ''acct-1''))"
    by (simp_all add: model_defs scenario_defs)
  from C4_staleness_boundary_inclusive[OF stored samples freshest printed(1)]
       C4_staleness_boundary_inclusive[OF stored samples freshest printed(2)]
  show ?thesis
    by (simp add: settings_def)
qed

text \<open>
  C3 (as the code has it). The oracle is fail-closed whenever the storage layer answers:
  without an allow-list row, without a stored sample, or with a freshest sample older
  than the timeout, \<open>check_user_permission\<close> returns \<open>False\<close>, in a run whose lines
  the console prints. It holds no \<open>try\<close> block: an exception of the storage layer is
  not turned into \<open>False\<close>, it leaves \<open>check_user_permission\<close>.
\<close>

theorem C3_fail_closed_when_storage_answers:
  assumes "all_printed lm (fst (check_user_permission lm c now db user_id))"
  shows "(db user_id = Inr None \<longrightarrow>
            snd (check_user_permission lm c now db user_id) = Inr False) \<and>
         (\<forall>row. db user_id = Inr (Some row) \<and> al_time_locations row = [] \<longrightarrow>
            snd (check_user_permission lm c now db user_id) = Inr False) \<and>
         (\<forall>row. db user_id = Inr (Some row) \<and> al_time_locations row \<noteq> [] \<and>
                now - Max (tl_last_update ` set (al_time_locations row)) > GEOLOCATION_TIMEOUT c \<longrightarrow>
            snd (check_user_permission lm c now db user_id) = Inr False) \<and>
         (\<forall>e. db user_id = Inl e \<longrightarrow>
            snd (check_user_permission lm c now db user_id) = Inl e)"
  by (simp add: check_user_permission_result[OF assms])

text \<open>
  No row for \<open>acct-2\<close>; a row without samples; a row whose freshest sample is 31 seconds
  old; and a storage layer that raises.
\<close>

theorem C3_fail_closed_when_storage_answers_witness:
  "snd (check_user_permission console settings 1000 (session_with []) ''acct-2'') = Inr False \<and>
   snd (check_user_permission console settings 1000 (session_with []) ''acct-1'') = Inr False \<and>
   snd (check_user_permission console settings 1001
          (session_with [sample_at 15 50 900, sample_at 15 50 970]) ''acct-1'') = Inr False \<and>
   snd (check_user_permission console settings 1000 unreachable_session ''acct-1'') =
     Inl (StorageError ''database is locked'')"
proof -
  have printed:
    "all_printed console
       (fst (check_user_permission console settings 1000 (session_with []) ''acct-2''))"
    "all_printed console
       (fst (check_user_permission console settings 1000 (session_with []) ''acct-1''))"
    "all_printed console
       (fst (check_user_permission console settings 1001
               (session_with [sample_at 15 50 900, sample_at 15 50 970]) ''acct-1''))"
    "all_printed console
       (fst (check_user_permission console settings 1000 unreachable_session ''acct-1''))"
    by (simp_all add: model_defs scenario_defs)
  from C3_fail_closed_when_storage_answers[OF printed(1)]
       C3_fail_closed_when_storage_answers[OF printed(2)]
       C3_fail_closed_when_storage_answers[OF printed(3)]
       C3_fail_closed_when_storage_answers[OF printed(4)]
  show ?thesis
    by (simp add: session_with_def sample_at_def settings_def unreachable_session_def)
qed

text \<open>
  C3 as stated fails: when the storage layer raises, \<open>check_user_permission\<close> does not
  return \<open>False\<close>, it raises.
\<close>

theorem C3_storage_error_propagates:
  "snd (check_user_permission console settings 1000 unreachable_session ''acct-1'') \<noteq> Inr False"
  by (simp add: model_defs scenario_defs)

subsection \<open>An event in which only the caller resolves\<close>

text \<open>
  Scenario B of the specification: a call received by \<open>100\<close>, the only party of the
  event, whose account has no allow-list row. The oracle is asked about \<open>acct-1\<close> and
  \<open>reject_call\<close> is called with \<open>100\<close> and the call id.
\<close>

lemma target_only_event_is_checked:
  "handle_event console settings directory (world empty_session) received_for_100 =
     ([Log (ProcessingEvent (PStr ''xsi:CallReceivedEvent'')
              [(''event_type'', PStr ''xsi:CallReceivedEvent''), (''call_id'', PStr ''call-7''),
               (''user_id'', PDict []), (''target_id'', PStr ''100'')]),
       Log (HandlingCallEvent (PStr ''xsi:CallReceivedEvent'') (PStr ''call-7'')
              (PDict []) (PStr ''100'')),
       CheckUserPermission ''acct-1'',
       Log (NoAllowListEntryFound ''acct-1''),
       Log (NotInAllowListOrNoData ''acct-1''),
       Log (InboundBlocked ''acct-1'' (PStr ''call-7'')),
       RejectCall (PStr ''100'') (PStr ''call-7''),
       ReadActiveCalls ''acct-1'',
       Hangup ''call-7'',
       Log (FailedToEndCall (PStr ''call-7'') (PlatformError ''call already ended'')),
       Hangup ''call-8'',
       Log (EndedCall ''call-8'')],
      Inr ())"
  by (simp add: model_defs scenario_defs)

text \<open>
  C1 at a failing input. A call originated by \<open>200\<close> with no target id in the event:
  the caller resolves in the directory, the target does not, and the oracle would
  answer not-permitted for the caller's account \<open>acct-2\<close>. \<open>handle_event\<close> passes the
  target id, an empty dictionary, to \<open>handle_external_call\<close>; the directory lookup
  raises \<open>TypeError\<close>, which is logged. The oracle is not queried and \<open>reject_call\<close> is
  not called.
\<close>

theorem C1_caller_only_event_is_not_checked:
  "snd (extract_event_details console originated_by_200_only) =
     Inr [(''event_type'', CallOriginatedEvent), (''call_id'', PStr ''call-7''),
          (''user_id'', PStr ''200''), (''target_id'', PDict [])] \<and>
   resolves directory (PStr ''200'') \<and>
   \<not> resolves directory (PDict []) \<and>
   snd (check_user_permission console settings 1000 empty_session ''acct-2'') = Inr False \<and>
   handle_event console settings directory (world empty_session) originated_by_200_only =
     ([Log (ProcessingEvent (PStr ''xsi:CallOriginatedEvent'')
              [(''event_type'', PStr ''xsi:CallOriginatedEvent''), (''call_id'', PStr ''call-7''),
               (''user_id'', PStr ''200''), (''target_id'', PDict [])]),
       Log (HandlingCallEvent (PStr ''xsi:CallOriginatedEvent'') (PStr ''call-7'')
              (PStr ''200'') (PDict [])),
       Log (ErrorHandlingCallEvent TypeError)],
      Inr ())"
  by (simp add: model_defs scenario_defs resolves_def)

subsection \<open>The ingestion loop and exceptions\<close>

text \<open>
  An exception of the directory lookup is contained: the event of the previous scenario
  is followed by a call between two internal parties, and the loop handles both.
\<close>

lemma loop_contains_a_lookup_error:
  "monitor_calls console settings directory
     [(world empty_session, originated_by_200_only),
      (world empty_session, received_200_to_100)] =
     ([Log (ProcessingEvent (PStr ''xsi:CallOriginatedEvent'')
              [(''event_type'', PStr ''xsi:CallOriginatedEvent''), (''call_id'', PStr ''call-7''),
               (''user_id'', PStr ''200''), (''target_id'', PDict [])]),
       Log (HandlingCallEvent (PStr ''xsi:CallOriginatedEvent'') (PStr ''call-7'')
              (PStr ''200'') (PDict [])),
       Log (ErrorHandlingCallEvent TypeError),
       Sleep,
       Log (ProcessingEvent (PStr ''xsi:CallReceivedEvent'')
              [(''event_type'', PStr ''xsi:CallReceivedEvent''), (''call_id'', PStr ''call-7''),
               (''user_id'', PStr ''200''), (''target_id'', PStr ''100'')]),
       Log (HandlingCallEvent (PStr ''xsi:CallReceivedEvent'') (PStr ''call-7'')
              (PStr ''200'') (PStr ''100'')),
       Log (BothPartiesInternal (PStr ''call-7'')),
       Sleep],
      Inr ())"
  by (simp add: model_defs scenario_defs)

text \<open>
  C5 at a failing input. A call received by \<open>100\<close> whose call id is the text \<open>[/x]\<close>,
  followed by a well-formed event. The first progress line of \<open>handle_event\<close> holds
  the call id, and the console raises on it. The handler of \<open>handle_event\<close> logs the
  exception, whose text repeats the tag: the console raises again and the exception
  leaves \<open>handle_event\<close>. The handler of the loop logs the traceback, the console
  raises once more, and the exception leaves \<open>monitor_calls\<close>: the loop has ended and
  the second event is never taken off the queue.
\<close>

theorem C5_loop_ends_when_a_handler_raises:
  "monitor_calls console settings directory
     [(world empty_session, received_for_100_tagged),
      (world empty_session, received_200_to_100)] =
     ([Log (ProcessingEvent (PStr ''xsi:CallReceivedEvent'')
              [(''event_type'', PStr ''xsi:CallReceivedEvent''), (''call_id'', PStr ''[/x]''),
               (''user_id'', PDict []), (''target_id'', PStr ''100'')]),
       Log (ErrorHandlingCallEvent (MarkupError ''[/x]'')),
       Log (MonitoringLoopTraceback (MarkupError ''[/x]''))],
      Inl (MarkupError ''[/x]''))"
  by (simp add: model_defs scenario_defs)

subsection \<open>Call termination and exceptions\<close>

text \<open>
  A failing hangup is contained when the console prints its line: the first call is
  attempted and fails, the second one is still attempted and ends.
\<close>

lemma reject_call_contains_a_hangup_error:
  "reject_call console directory busy_platform (PStr ''100'') (PStr ''call-7'') =
     ([RejectCall (PStr ''100'') (PStr ''call-7''),
       ReadActiveCalls ''acct-1'',
       Hangup ''call-7'',
       Log (FailedToEndCall (PStr ''call-7'') (PlatformError ''call already ended'')),
       Hangup ''call-8'',
       Log (EndedCall ''call-8'')],
      Inr ())"
  by (simp add: model_defs scenario_defs)

text \<open>
  C8 at a failing input. User \<open>100\<close> has an entry with a handle and two active calls;
  the hangup of the first call raises an error whose text is \<open>[/x]\<close>. The handler
  inside the loop logs the error and the console raises on its text; the handler around
  the loop logs that exception and the console raises again. The exception leaves
  \<open>reject_call\<close>, and the hangup of the second call is never attempted.
\<close>

theorem C8_reject_call_propagates_when_a_handler_raises:
  "map_get directory (PStr ''100'') = Inr (Some user_100) \<and>
   xsi_instance user_100 = Some ''acct-1'' \<and>
   tagged_platform ''acct-1'' = Inr two_calls_tagged \<and>
   reject_call console directory tagged_platform (PStr ''100'') (PStr ''call-7'') =
     ([RejectCall (PStr ''100'') (PStr ''call-7''),
       ReadActiveCalls ''acct-1'',
       Hangup ''call-7'',
       Log (FailedToEndCall (PStr ''call-7'') (PlatformError ''[/x]'')),
       Log (FailedToEndCall (PStr ''call-7'') (MarkupError ''[/x]''))],
      Inl (MarkupError ''[/x]''))"
  by (simp add: model_defs scenario_defs)

subsection \<open>Directory build\<close>

lemma build_xsi_user_map_fails:
  assumes "list_ex (\<lambda>p. start_xsi p \<noteq> None) people"
  shows "\<exists>e. build_xsi_user_map people m = ([], Inl e)"
  using assms
proof (induction people arbitrary: m)
  case Nil
  then show ?case by simp
next
  case (Cons p people)
  show ?case
  proof (cases "start_xsi p")
    case (Some e)
    then show ?thesis
      by (simp add: bind_io_def lift_exn_def)
  next
    case None
    with Cons.prems have "list_ex (\<lambda>p. start_xsi p \<noteq> None) people"
      by simp
    from Cons.IH[OF this] show ?thesis
      using None
      by (cases "profile p")
         (auto simp: bind_io_lift_exn_Inr Let_def bind_io_def lift_exn_def)
  qed
qed

lemma build_xsi_user_map_completes:
  assumes "list_all activates people"
  shows "\<exists>m'. build_xsi_user_map people m = ([], Inr m') \<and>
              dom m' = dom m \<union> internal_id ` set people"
  using assms
proof (induction people arbitrary: m)
  case Nil
  then show ?case
    by (simp add: return_io_def)
next
  case (Cons p people)
  from Cons.prems have this_one: "activates p" and rest: "list_all activates people"
    by simp_all
  from this_one obtain info where
    p: "start_xsi p = None" "profile p = Inr info" "hashable (dict_get info ''user_id'')"
    by (auto simp: activates_def split: sum.splits)
  define m1 where
    "m1 = m(dict_get info ''user_id'' \<mapsto> user_entry_of p (dict_get info ''user_id''))"
  from Cons.IH[OF rest, of m1] obtain m' where
    m': "build_xsi_user_map people m1 = ([], Inr m')"
        "dom m' = dom m1 \<union> internal_id ` set people"
    by blast
  have step: "build_xsi_user_map (p # people) m = build_xsi_user_map people m1"
    using p by (simp add: bind_io_lift_exn_Inr Let_def m1_def)
  have "internal_id p = dict_get info ''user_id''"
    using p by (simp add: internal_id_def)
  then have "dom m1 \<union> internal_id ` set people = dom m \<union> internal_id ` set (p # people)"
    by (simp add: m1_def)
  with m' step show ?case
    by simp
qed

text \<open>
  C7 (as the code has it). The directory build is all or nothing: when activating the
  subscription raises for some member of the roster, an exception leaves the
  constructor and no directory is built; when the activation and the profile read
  succeed for every member and the console prints the two closing lines, the build
  completes and the directory holds an entry for the internal id of every member.
\<close>

theorem C7_directory_build_all_or_nothing:
  "(list_ex (\<lambda>p. start_xsi p \<noteq> None) people \<longrightarrow>
      (\<exists>e. CallMonitor_init lm (Inr people) = ([], Inl e))) \<and>
   (list_all activates people \<and> all_printed lm (fst (CallMonitor_init lm (Inr people))) \<longrightarrow>
      (\<exists>m. snd (CallMonitor_init lm (Inr people)) = Inr m \<and>
           dom m = internal_id ` set people))"
proof -
  have a: "\<exists>e. CallMonitor_init lm (Inr people) = ([], Inl e)"
    if "list_ex (\<lambda>p. start_xsi p \<noteq> None) people"
    using build_xsi_user_map_fails[OF that, of Map.empty]
    by (auto simp: CallMonitor_init_def bind_io_lift_exn_Inr bind_io_simps)
  have b: "\<exists>m. snd (CallMonitor_init lm (Inr people)) = Inr m \<and> dom m = internal_id ` set people"
    if "list_all activates people" "all_printed lm (fst (CallMonitor_init lm (Inr people)))"
    using build_xsi_user_map_completes[OF that(1), of Map.empty] that(2)
    by (auto simp: CallMonitor_init_def bind_io_lift_exn_Inr io_simps snd_lnp
             split: option.splits sum.splits)
  from a b show ?thesis
    by blast
qed

theorem C7_directory_build_all_or_nothing_witness:
  "(\<exists>e. CallMonitor_init console (Inr roster_first_fails) = ([], Inl e)) \<and>
   (\<exists>m. snd (CallMonitor_init console (Inr roster_ok)) = Inr m \<and>
        dom m = {PStr ''100'', PStr ''200''})"
proof -
  have fails: "list_ex (\<lambda>p. start_xsi p \<noteq> None) roster_first_fails"
    by (simp add: roster_first_fails_def member_def)
  have ok: "list_all activates roster_ok"
    by (simp add: roster_ok_def member_def activates_def dict_get_def)
  have ids: "internal_id ` set roster_ok = {PStr ''100'', PStr ''200''}"
    by (simp add: roster_ok_def member_def internal_id_def dict_get_def)
  have printed: "all_printed console (fst (CallMonitor_init console (Inr roster_ok)))"
    by (simp add: CallMonitor_init_def roster_ok_def member_def bind_io_lift_exn_Inr
          io_simps Let_def dict_get_def snd_lnp console_def)
  from C7_directory_build_all_or_nothing[of roster_first_fails console]
       C7_directory_build_all_or_nothing[of roster_ok console] fails ok ids printed
  show ?thesis
    by simp
qed

text \<open>
  C7 as stated fails: with a roster of two members whose first activation raises, the
  build does not complete with an entry for the second member; the exception leaves the
  constructor before anything is logged.
\<close>

theorem C7_activation_failure_is_fatal:
  "CallMonitor_init console (Inr roster_first_fails) =
     ([], Inl (PlatformError ''XSI not enabled''))"
  by (simp add: CallMonitor_init_def roster_first_fails_def member_def
        bind_io_def lift_exn_def)

subsection \<open>Coordinates and the permission decision\<close>

lemma without_coordinates_last_updates:
  assumes "without_coordinates r1 = without_coordinates r2"
  shows "map tl_last_update (al_time_locations r1) = map tl_last_update (al_time_locations r2)"
proof -
  have "map tl_last_update (al_time_locations (without_coordinates r)) =
        map tl_last_update (al_time_locations r)" for r
    by (simp add: without_coordinates_def comp_def)
  with assms show ?thesis
    by metis
qed

lemma same_but_coordinates_result:
  assumes "same_but_coordinates (db1 user_id) (db2 user_id)"
      and "GEOLOCATION_TIMEOUT c1 = GEOLOCATION_TIMEOUT c2"
      and "all_printed lm (fst (check_user_permission lm c1 now db1 user_id))"
      and "all_printed lm (fst (check_user_permission lm c2 now db2 user_id))"
  shows "snd (check_user_permission lm c1 now db1 user_id) =
         snd (check_user_permission lm c2 now db2 user_id)"
proof (cases "db1 user_id")
  case (Inl e)
  with assms(1) have "db2 user_id = Inl e"
    by (cases "db2 user_id") (simp_all add: same_but_coordinates_def)
  with Inl show ?thesis
    by (simp add: check_user_permission_result[OF assms(3)]
          check_user_permission_result[OF assms(4)])
next
  case (Inr r1)
  with assms(1) obtain r2 where
    r2: "db2 user_id = Inr r2"
        "map_option without_coordinates r1 = map_option without_coordinates r2"
    by (cases "db2 user_id") (simp_all add: same_but_coordinates_def)
  show ?thesis
  proof (cases r1)
    case None
    with r2 have "r2 = None"
      by simp
    with None Inr r2 show ?thesis
      by (simp add: check_user_permission_result[OF assms(3)]
            check_user_permission_result[OF assms(4)])
  next
    case (Some row1)
    with r2 obtain row2 where
      row2: "r2 = Some row2" "without_coordinates row1 = without_coordinates row2"
      by (cases r2) auto
    from without_coordinates_last_updates[OF row2(2)]
    have m: "map tl_last_update (al_time_locations row1) =
             map tl_last_update (al_time_locations row2)" .
    then have "set (map tl_last_update (al_time_locations row1)) =
               set (map tl_last_update (al_time_locations row2))"
      by simp
    then have i: "tl_last_update ` set (al_time_locations row1) =
                  tl_last_update ` set (al_time_locations row2)"
      by simp
    from m have e: "(al_time_locations row1 = []) = (al_time_locations row2 = [])"
      by (metis map_is_Nil_conv)
    from Inr Some r2 row2 i e assms(2) show ?thesis
      by (simp add: check_user_permission_result[OF assms(3)]
            check_user_permission_result[OF assms(4)])
  qed
qed

text \<open>The endpoint writes a sample only after the containment test on its coordinates.\<close>

lemma stored_sample_in_country:
  assumes "UpdateTimeLocationEntry u tok t lat lon
             \<in> set (fst (update_time_location_db lm c st data))"
  shows "in_country c lat lon \<and> lat = latitude data \<and> lon = longitude data"
  using assms
  by (auto simp: update_time_location_db_def read_user_list_def storage_write_def
        get_allow_list_entry_by_user_id_def io_simps
        split: sum.splits option.splits if_splits)

text \<open>
  C10. The permission decision is independent of stored coordinates: when the rows that
  two storage states hold for a user differ only in the latitude and longitude of the
  samples, \<open>check_user_permission\<close> returns the same result in both, also under
  configurations with different bounding boxes, in runs whose lines the console prints.
  The containment test is the endpoint's: every sample that \<open>update_time_location_db\<close>
  writes carries the coordinates of the request and these passed \<open>in_country\<close>.
\<close>

theorem C10_permission_independent_of_coordinates:
  assumes "same_but_coordinates (db1 user_id) (db2 user_id)"
      and "GEOLOCATION_TIMEOUT c1 = GEOLOCATION_TIMEOUT c2"
      and "all_printed lm (fst (check_user_permission lm c1 now db1 user_id))"
      and "all_printed lm (fst (check_user_permission lm c2 now db2 user_id))"
  shows "snd (check_user_permission lm c1 now db1 user_id) =
           snd (check_user_permission lm c2 now db2 user_id) \<and>
         (\<forall>u tok t lat lon.
            UpdateTimeLocationEntry u tok t lat lon
              \<in> set (fst (update_time_location_db lm c1 st data)) \<longrightarrow>
            in_country c1 lat lon \<and> lat = latitude data \<and> lon = longitude data)"
  using assms same_but_coordinates_result[of db1 user_id db2 c1 c2 lm now]
        stored_sample_in_country[of _ _ _ _ _ lm c1 st data]
  by blast

text \<open>
  A sample inside the bounding box and one at latitude 0 and longitude 0, outside it,
  both updated at 990: the user is permitted at 1000 in both states. A report from
  inside the box is written.
\<close>

theorem C10_permission_independent_of_coordinates_witness:
  "snd (check_user_permission console settings 1000 (session_with [sample_at 15 50 990])
          ''acct-1'') =
     snd (check_user_permission console settings 1000 (session_with [sample_at 0 0 990])
            ''acct-1'') \<and>
   UpdateTimeLocationEntry ''acct-1'' ''token-1'' ''12:00'' 15 50
     \<in> set (fst (update_time_location_db console settings registered_storage
                    (report_at 15 50))) \<and>
   in_country settings 15 50"
proof -
  have same: "same_but_coordinates (session_with [sample_at 15 50 990] ''acct-1'')
                (session_with [sample_at 0 0 990] ''acct-1'')"
    by (simp add: same_but_coordinates_def without_coordinates_def session_with_def
          sample_at_def)
  have printed:
    "all_printed console (fst (check_user_permission console settings 1000
        (session_with [sample_at 15 50 990]) ''acct-1''))"
    "all_printed console (fst (check_user_permission console settings 1000
        (session_with [sample_at 0 0 990]) ''acct-1''))"
    by (simp_all add: model_defs scenario_defs)
  have written: "UpdateTimeLocationEntry ''acct-1'' ''token-1'' ''12:00'' 15 50
     \<in> set (fst (update_time_location_db console settings registered_storage
                    (report_at 15 50)))"
    by (simp add: update_time_location_db_def read_user_list_def storage_write_def
          get_allow_list_entry_by_user_id_def io_simps snd_lnp console_def
          registered_storage_def report_at_def session_with_def settings_def in_country_def)
  from C10_permission_independent_of_coordinates
         [of "session_with [sample_at 15 50 990]" "''acct-1''"
             "session_with [sample_at 0 0 990]" settings settings console 1000
             registered_storage "report_at 15 50"]
       same printed written
  show ?thesis
    by blast
qed

end
